theory Spec2Isabelle
  imports Main "HOL-Library.Char_ord" "HOL-Library.List_Lexorder"
begin

section \<open>Time-of-day strings\<close>

text \<open>
  The clinic server keeps every time of day as a string. The Mongoose schemas
  (Appointment.startTime/endTime, Staff.availability[].startTime/endTime) and the
  express-validator chains all test the same regular expression
  \<^verbatim>\<open>/^([0-1]?[0-9]|2[0-3]):[0-5][0-9]$/\<close>.
  Strings are compared by JavaScript's \<^verbatim>\<open><\<close> in the route handlers and by
  MongoDB's \<^verbatim>\<open>$lt\<close>/\<^verbatim>\<open>$gt\<close> in the conflict query: both are
  the lexicographic order on character codes, which is the order of
  \<open>HOL-Library.List_Lexorder\<close> over \<open>HOL-Library.Char_ord\<close>.
\<close>

definition isDigit :: "char \<Rightarrow> bool" where
  "isDigit c = (c \<in> set ''0123456789'')"

text \<open>The regular expression, read off alternative by alternative: an hour of one digit
  (\<^verbatim>\<open>[0-1]?\<close> absent), an hour \<^verbatim>\<open>[0-1][0-9]\<close>, or an hour \<^verbatim>\<open>2[0-3]\<close>;
  then a colon and \<^verbatim>\<open>[0-5][0-9]\<close>.\<close>

fun valid_time :: "string \<Rightarrow> bool" where
  "valid_time [h, c, m1, m2] =
     (isDigit h \<and> c = CHR '':'' \<and> m1 \<in> set ''012345'' \<and> isDigit m2)"
| "valid_time [h1, h2, c, m1, m2] =
     (((h1 \<in> set ''01'' \<and> isDigit h2) \<or> (h1 = CHR ''2'' \<and> h2 \<in> set ''0123''))
      \<and> c = CHR '':'' \<and> m1 \<in> set ''012345'' \<and> isDigit m2)"
| "valid_time _ = False"

text \<open>A time written with a two-digit hour, the \<open>HH:MM\<close> of the data model.\<close>

definition hhmm :: "string \<Rightarrow> bool" where
  "hhmm v = (valid_time v \<and> length v = 5)"

subsection \<open>timeToMinutes\<close>

text \<open>
  \<^verbatim>\<open>
  function timeToMinutes(timeStr) {
    const [hours, minutes] = timeStr.split(':').map(Number);
    return hours * 60 + minutes;
  }
  \<close>
  \<open>split_colon\<close> is \<^verbatim>\<open>split(':')\<close>. \<open>Number\<close> is modelled on strings of decimal
  digits (the empty string is 0, as in JavaScript); \<open>None\<close> is NaN. Strings in
  another numeric notation (sign, blanks, exponent, hexadecimal, fraction) are outside
  the model; no string the validators accept has such a part. A missing second part is
  \<^verbatim>\<open>undefined\<close>, and the sum is NaN.
\<close>

fun split_colon :: "string \<Rightarrow> string list" where
  "split_colon [] = [[]]"
| "split_colon (c # cs) =
     (if c = CHR '':'' then [] # split_colon cs
      else (case split_colon cs of p # ps \<Rightarrow> (c # p) # ps | [] \<Rightarrow> [[c]]))"

text \<open>The value of a decimal digit is its position in \<open>''0123456789''\<close>.\<close>

definition digitVal :: "char \<Rightarrow> int" where
  "digitVal c = int (length (takeWhile (\<lambda>d. d \<noteq> c) ''0123456789''))"

definition decimal :: "string \<Rightarrow> int" where
  "decimal s = foldl (\<lambda>n c. 10 * n + digitVal c) 0 s"

definition Number :: "string \<Rightarrow> int option" where
  "Number s = (if list_all isDigit s then Some (decimal s) else None)"

definition timeToMinutes :: "string \<Rightarrow> int option" where
  "timeToMinutes timeStr =
     (case map Number (split_colon timeStr) of
        Some hours # Some minutes # _ \<Rightarrow> Some (hours * 60 + minutes)
      | _ \<Rightarrow> None)"

subsection \<open>minutesToTime\<close>

text \<open>
  \<^verbatim>\<open>
  function minutesToTime(minutes) {
    const hours = Math.floor(minutes / 60);
    const mins = minutes % 60;
    return `${hours.toString().padStart(2, '0')}:${mins.toString().padStart(2, '0')}`;
  }
  \<close>
  Minutes are whole numbers. \<^verbatim>\<open>Math.floor(minutes / 60)\<close> is \<open>div\<close> on \<open>int\<close>;
  \<^verbatim>\<open>%\<close> truncates towards zero and takes the sign of the dividend (\<open>js_rem\<close>).
\<close>

definition digitChar :: "nat \<Rightarrow> char" where
  "digitChar d = ''0123456789'' ! d"

fun toString_nat :: "nat \<Rightarrow> string" where
  "toString_nat n =
     (if n < 10 then [digitChar n] else toString_nat (n div 10) @ [digitChar (n mod 10)])"

definition toString :: "int \<Rightarrow> string" where
  "toString i = (if i < 0 then CHR ''-'' # toString_nat (nat (- i)) else toString_nat (nat i))"

definition padStart2 :: "string \<Rightarrow> string" where
  "padStart2 s = replicate (2 - length s) CHR ''0'' @ s"

definition js_rem :: "int \<Rightarrow> int \<Rightarrow> int" where
  "js_rem a b = (if a < 0 then - ((- a) mod b) else a mod b)"

definition minutesToTime :: "int \<Rightarrow> string" where
  "minutesToTime minutes =
     (let hours = minutes div 60; mins = js_rem minutes 60
      in padStart2 (toString hours) @ '':'' @ padStart2 (toString mins))"

section \<open>Documents\<close>

text \<open>
  Objects that carry a \<^verbatim>\<open>startTime\<close> and an \<^verbatim>\<open>endTime\<close>: the slots returned
  by slot generation are exactly this record; availability windows and appointments
  extend it.
\<close>

record timeRange =
  startTime :: string
  endTime :: string

text \<open>The \<^verbatim>\<open>status\<close> enum of the Appointment schema.\<close>

datatype status =
  Scheduled | Confirmed | InProgress | Completed | Cancelled | NoShow | Rescheduled

text \<open>
  The fields of the request body of a booking that the handlers read and that stay in the
  stored document (\<^verbatim>\<open>{...req.body}\<close>). Identifiers are the ObjectId strings;
  \<open>appointmentDate\<close> is the instant of the Date in milliseconds since the epoch.
\<close>

record booking = timeRange +
  patient :: string
  staff :: string
  service :: string
  appointmentDate :: int

text \<open>An Appointment document: the booking, its \<^verbatim>\<open>_id\<close> and its status.\<close>

record appointment = booking +
  appt_id :: string
  status :: status

text \<open>An entry of \<^verbatim>\<open>staffSchema.availability\<close>.\<close>

record availabilityWindow = timeRange +
  dayOfWeek :: string

text \<open>
  Staff and Service documents, as far as the handlers read them. A field that may be
  absent is an \<open>option\<close>; \<open>truthy\<close> is JavaScript's truthiness of such a string.
\<close>

record activeDoc =
  isActive :: bool

record staffDoc = activeDoc +
  specialty :: "string option"
  availability :: "availabilityWindow list"

record serviceDoc = activeDoc +
  durationMinutes :: int
  specialtyRequired :: "string option"

definition truthy :: "string option \<Rightarrow> bool" where
  "truthy s = (case s of None \<Rightarrow> False | Some x \<Rightarrow> x \<noteq> [])"

section \<open>Conflict check\<close>

text \<open>
  \<^verbatim>\<open>
  appointmentSchema.statics.checkConflict = function(staffId, date, startTime, endTime, excludeId = null) {
    const query = {
      staff: staffId,
      appointmentDate: date,
      status: { $nin: ['Cancelled', 'No Show'] },
      $or: [ { startTime: { $lt: endTime }, endTime: { $gt: startTime } } ]
    };
    if (excludeId) { query._id = { $ne: excludeId }; }
    return this.findOne(query);
  };
  \<close>
  The collection is the list of its documents; \<^verbatim>\<open>findOne\<close> returns the first match
  or null. \<open>excludeId\<close> is \<open>None\<close> for null; the empty string is falsy too.
\<close>

definition checkConflict ::
  "appointment list \<Rightarrow> string \<Rightarrow> int \<Rightarrow> string \<Rightarrow> string \<Rightarrow> string option \<Rightarrow> appointment option"
where
  "checkConflict db staffId date startT endT excludeId =
     List.find (\<lambda>a.
        staff a = staffId \<and> appointmentDate a = date
        \<and> status a \<noteq> Cancelled \<and> status a \<noteq> NoShow
        \<and> startTime a < endT \<and> endTime a > startT
        \<and> (case excludeId of None \<Rightarrow> True
             | Some x \<Rightarrow> if x = [] then True else appt_id a \<noteq> x)) db"

section \<open>Slot generation\<close>

text \<open>
  \<^verbatim>\<open>
  const hasConflict = existingAppointments.some(appointment => {
    const apptStart = timeToMinutes(appointment.startTime);
    const apptEnd = timeToMinutes(appointment.endTime);
    return (currentMinutes < apptEnd && currentMinutes + serviceDuration > apptStart);
  });
  \<close>
  A comparison with NaN is false.
\<close>

definition hasConflict :: "int \<Rightarrow> int \<Rightarrow> appointment list \<Rightarrow> bool" where
  "hasConflict currentMinutes serviceDuration existingAppointments =
     list_ex (\<lambda>a.
        case (timeToMinutes (startTime a), timeToMinutes (endTime a)) of
          (Some apptStart, Some apptEnd) \<Rightarrow>
             currentMinutes < apptEnd \<and> currentMinutes + serviceDuration > apptStart
        | _ \<Rightarrow> False) existingAppointments"

text \<open>
  The \<^verbatim>\<open>while\<close> loop of \<^verbatim>\<open>calculateAvailableSlots\<close>, with the array
  \<^verbatim>\<open>availableSlots\<close> passed along; \<^verbatim>\<open>push\<close> appends at the end.
  \<^verbatim>\<open>
  while (currentMinutes + serviceDuration <= endMinutes) {
    const slotStart = minutesToTime(currentMinutes);
    const slotEnd = minutesToTime(currentMinutes + serviceDuration);
    ...
    if (!hasConflict) { availableSlots.push({ startTime: slotStart, endTime: slotEnd }); }
    currentMinutes += 30; // 30-minute intervals
  }
  \<close>
\<close>

function slotLoop ::
  "int \<Rightarrow> int \<Rightarrow> int \<Rightarrow> appointment list \<Rightarrow> timeRange list \<Rightarrow> timeRange list"
where
  "slotLoop currentMinutes serviceDuration endMinutes existingAppointments availableSlots =
     (if currentMinutes + serviceDuration \<le> endMinutes
      then slotLoop (currentMinutes + 30) serviceDuration endMinutes existingAppointments
             (if hasConflict currentMinutes serviceDuration existingAppointments
              then availableSlots
              else availableSlots @
                     [\<lparr>startTime = minutesToTime currentMinutes,
                       endTime = minutesToTime (currentMinutes + serviceDuration)\<rparr>])
      else availableSlots)"
  by pat_completeness auto
termination
  by (relation "measure (\<lambda>(c, d, e, _, _). nat (e - d - c + 1))") auto

text \<open>
  \<^verbatim>\<open>
  function calculateAvailableSlots(startTime, endTime, serviceDuration, existingAppointments) {
    const availableSlots = [];
    const startMinutes = timeToMinutes(startTime);
    const endMinutes = timeToMinutes(endTime);
    let currentMinutes = startMinutes;
    while (...) {...}
    return availableSlots;
  }
  \<close>
  When either bound is NaN the loop condition is false at once. The service duration is a
  whole number of minutes (the services route validates it with
  \<^verbatim>\<open>isInt({ min: 15, max: 480 })\<close>).
\<close>

definition calculateAvailableSlots ::
  "string \<Rightarrow> string \<Rightarrow> int \<Rightarrow> appointment list \<Rightarrow> timeRange list"
where
  "calculateAvailableSlots startT endT serviceDuration existingAppointments =
     (case (timeToMinutes startT, timeToMinutes endT) of
        (Some startMinutes, Some endMinutes) \<Rightarrow>
           slotLoop startMinutes serviceDuration endMinutes existingAppointments []
      | _ \<Rightarrow> [])"

section \<open>Collections, host and responses\<close>

text \<open>
  What a \<^verbatim>\<open>findById\<close> promise settles to: rejected (a cast error, a lost connection),
  \<^verbatim>\<open>null\<close>, or the document.
\<close>

datatype 'a lookup = Rejected | Null | Doc 'a

record collections =
  Patient_findById :: "string \<Rightarrow> unit lookup"
  Staff_findById :: "string \<Rightarrow> staffDoc lookup"
  Service_findById :: "string \<Rightarrow> serviceDoc lookup"
  appointments :: "appointment list"

text \<open>
  What the handlers take from the platform and the storage engine:
  \<open>now\<close> is \<^verbatim>\<open>new Date()\<close>; \<open>weekday\<close> is
  \<^verbatim>\<open>toLocaleDateString('en-US', { weekday: 'long' })\<close> of an instant in the server's time
  zone; \<open>parseDate\<close> is \<^verbatim>\<open>new Date(string)\<close>, \<open>None\<close> for an Invalid Date;
  \<open>startOfDay\<close> and \<open>endOfDay\<close> are \<^verbatim>\<open>setHours(0, 0, 0, 0)\<close> and
  \<^verbatim>\<open>setHours(23, 59, 59, 999)\<close>; \<open>storeAccepts\<close> says whether the storage engine
  takes a new Appointment document (its indexes, its availability); \<open>newObjectId\<close> is
  the \<^verbatim>\<open>_id\<close> it assigns.
\<close>

record host =
  now :: int
  weekday :: "int \<Rightarrow> string"
  parseDate :: "string \<Rightarrow> int option"
  startOfDay :: "int \<Rightarrow> int"
  endOfDay :: "int \<Rightarrow> int"
  storeAccepts :: "appointment list \<Rightarrow> appointment \<Rightarrow> bool"
  newObjectId :: "appointment list \<Rightarrow> string"

text \<open>\<^verbatim>\<open>req.user\<close>: its role and its id.\<close>

record user =
  role :: string
  uid :: string

text \<open>
  A response is \<^verbatim>\<open>res.status(code).json({ success: true, data })\<close> or
  \<^verbatim>\<open>res.status(code).json({ success: false, message })\<close>; the messages are named.
\<close>

datatype failure =
    ValidationFailed
  | OnlyForYourself
  | PatientNotFound
  | StaffNotFound
  | ServiceNotFound
  | SpecialtyMismatch
  | NotAvailableThatDay
  | OutsideWorkingHours
  | SlotAlreadyBooked
  | DurationMismatch
  | MissingParameters
  | NotAuthorized
  | NotAnArray
  | InvalidDayOfWeek
  | InvalidTimeFormat
  | StartNotBeforeEnd
  | Caught

datatype 'a response = Success nat 'a | Failure nat failure

section \<open>Creating an appointment: POST /api/appointments\<close>

text \<open>
  The request body: the booking, and one flag for the validators of the chain
  \<^verbatim>\<open>appointmentValidation\<close> that do not read a time (ids, date, reason for visit,
  type, priority, notes, symptoms). The two time validators are
  \<^verbatim>\<open>
  body('startTime').matches(/^([0-1]?[0-9]|2[0-3]):[0-5][0-9]$/)
  body('endTime').matches(/^([0-1]?[0-9]|2[0-3]):[0-5][0-9]$/)
    .custom((value, { req }) => {
      if (value <= req.body.startTime) { throw new Error('End time must be after start time'); }
      return true; })
  \<close>
  \<open>appointmentValidation\<close> holds when \<^verbatim>\<open>validationResult(req)\<close> is empty.
\<close>

record bookingBody = booking +
  otherFieldsValid :: bool

definition appointmentValidation :: "bookingBody \<Rightarrow> bool" where
  "appointmentValidation b =
     (otherFieldsValid b \<and> valid_time (startTime b) \<and> valid_time (endTime b)
      \<and> \<not> endTime b \<le> startTime b)"

text \<open>
  \<^verbatim>\<open>
  function calculateDurationMinutes(startTime, endTime) {
    const start = new Date(`1970-01-01T${startTime}:00`);
    const end = new Date(`1970-01-01T${endTime}:00`);
    return (end - start) / (1000 * 60);
  }
  \<close>
  The handler calls it on strings that passed the validator. With a two-digit hour the
  argument of \<^verbatim>\<open>new Date\<close> is in the ECMAScript date-time format, a local time of
  1 January 1970; both instants are on the same day, so their difference is the difference
  of the clock times. With a one-digit hour the string is not in that format, and Node
  (V8) gives an Invalid Date: the difference is NaN, here \<open>None\<close>.
\<close>

definition clockOfDate :: "string \<Rightarrow> int option" where
  "clockOfDate t = (if hhmm t then timeToMinutes t else None)"

definition calculateDurationMinutes :: "string \<Rightarrow> string \<Rightarrow> int option" where
  "calculateDurationMinutes startT endT =
     (case (clockOfDate startT, clockOfDate endT) of
        (Some start, Some end') \<Rightarrow> Some (end' - start)
      | _ \<Rightarrow> None)"

text \<open>
  \<^verbatim>\<open>Math.abs(durationMinutes - serviceDoc.durationMinutes) > 15\<close>; a comparison with
  NaN is false.
\<close>

definition durationOutOfTolerance :: "int option \<Rightarrow> int \<Rightarrow> bool" where
  "durationOutOfTolerance duration nominal =
     (case duration of None \<Rightarrow> False | Some d \<Rightarrow> \<bar>d - nominal\<bar> > 15)"

text \<open>
  \<^verbatim>\<open>Appointment.create(appointmentData)\<close>: the schema validators run (the times match
  the same regular expression; the date must be after \<^verbatim>\<open>new Date()\<close>), then the
  storage engine takes the document or rejects it. The status is the default,
  \<^verbatim>\<open>'Scheduled'\<close> (a body that sets further fields of the schema is not modelled).
  \<open>None\<close> is a rejected promise.
\<close>

definition Appointment_create :: "host \<Rightarrow> appointment list \<Rightarrow> bookingBody \<Rightarrow> appointment option" where
  "Appointment_create h stored b =
     (let doc = \<lparr>startTime = startTime b, endTime = endTime b, patient = patient b,
                 staff = staff b, service = service b, appointmentDate = appointmentDate b,
                 appt_id = newObjectId h stored, status = Scheduled\<rparr>
      in if appointmentDate b > now h \<and> storeAccepts h stored doc then Some doc else None)"

text \<open>
  The handler from the specialty check on, with the staff and service documents found:
  \<^verbatim>\<open>
  if (serviceDoc.specialtyRequired && serviceDoc.specialtyRequired !== staffDoc.specialty) 400
  const dayOfWeek = new Date(appointmentDate).toLocaleDateString('en-US', { weekday: 'long' });
  const availability = staffDoc.availability.find(slot => slot.dayOfWeek === dayOfWeek);
  if (!availability) 400
  if (startTime < availability.startTime || endTime > availability.endTime) 400
  const conflict = await Appointment.checkConflict(staff, appointmentDate, startTime, endTime);
  if (conflict) 400
  const durationMinutes = calculateDurationMinutes(startTime, endTime);
  if (Math.abs(durationMinutes - serviceDoc.durationMinutes) > 15) 400
  const appointment = await Appointment.create(appointmentData);
  ... 201
  \<close>
  The result is the response and the Appointment collection afterwards.
\<close>

definition bookWith ::
  "host \<Rightarrow> appointment list \<Rightarrow> bookingBody \<Rightarrow> staffDoc \<Rightarrow> serviceDoc
     \<Rightarrow> appointment response \<times> appointment list"
where
  "bookWith h stored b staffDoc serviceDoc =
     (if truthy (specialtyRequired serviceDoc)
         \<and> specialtyRequired serviceDoc \<noteq> specialty staffDoc
      then (Failure 400 SpecialtyMismatch, stored)
      else
        case List.find (\<lambda>slot. dayOfWeek slot = weekday h (appointmentDate b))
               (availability staffDoc) of
          None \<Rightarrow> (Failure 400 NotAvailableThatDay, stored)
        | Some window \<Rightarrow>
            if startTime b < startTime window \<or> endTime b > endTime window
            then (Failure 400 OutsideWorkingHours, stored)
            else if checkConflict stored (staff b) (appointmentDate b) (startTime b) (endTime b)
                      None \<noteq> None
            then (Failure 400 SlotAlreadyBooked, stored)
            else if durationOutOfTolerance
                      (calculateDurationMinutes (startTime b) (endTime b))
                      (durationMinutes serviceDoc)
            then (Failure 400 DurationMismatch, stored)
            else
              case Appointment_create h stored b of
                None \<Rightarrow> (Failure 400 Caught, stored)
              | Some doc \<Rightarrow> (Success 201 doc, stored @ [doc]))"

text \<open>
  The handler up to there:
  \<^verbatim>\<open>
  if (!errors.isEmpty()) 400
  if (req.user.role === 'patient' && patient !== req.user.id) 403
  const [patientDoc, staffDoc, serviceDoc] = await Promise.all([...findById...]);
  if (!patientDoc) 404
  if (!staffDoc || !staffDoc.isActive) 404
  if (!serviceDoc || !serviceDoc.isActive) 404
  \<close>
  A rejected promise is caught: \<^verbatim>\<open>res.status(400)\<close>.
\<close>

definition router_post ::
  "host \<Rightarrow> collections \<Rightarrow> user \<Rightarrow> bookingBody \<Rightarrow> appointment response \<times> appointment list"
where
  "router_post h db u b =
     (let stored = appointments db in
      if \<not> appointmentValidation b then (Failure 400 ValidationFailed, stored)
      else if role u = ''patient'' \<and> patient b \<noteq> uid u
      then (Failure 403 OnlyForYourself, stored)
      else if Patient_findById db (patient b) = Rejected
              \<or> Staff_findById db (staff b) = Rejected
              \<or> Service_findById db (service b) = Rejected
      then (Failure 400 Caught, stored)
      else if Patient_findById db (patient b) = Null
      then (Failure 404 PatientNotFound, stored)
      else
        case Staff_findById db (staff b) of
          Doc staffDoc \<Rightarrow>
            if isActive staffDoc
            then (case Service_findById db (service b) of
                    Doc serviceDoc \<Rightarrow>
                      if isActive serviceDoc then bookWith h stored b staffDoc serviceDoc
                      else (Failure 404 ServiceNotFound, stored)
                  | _ \<Rightarrow> (Failure 404 ServiceNotFound, stored))
            else (Failure 404 StaffNotFound, stored)
        | _ \<Rightarrow> (Failure 404 StaffNotFound, stored))"

section \<open>Querying free slots: the callback registered for \<^verbatim>\<open>/available-slots\<close>\<close>

text \<open>
  The callback of \<^verbatim>\<open>router.get('/available-slots', async (req, res) => {...})\<close>: what it
  answers once a request is handed to it. Which requests are handed to it is decided by
  the router, in the section after this one.

  The query parameters; a parameter that is absent and one that is empty are both falsy,
  and both are the empty string here.
\<close>

record slotQuery =
  staffParam :: string
  serviceParam :: string
  dateParam :: string

text \<open>
  The \<^verbatim>\<open>data\<close> of the response: the date, the slots and, when the staff member works
  that day, the number of existing appointments (the descriptive fields
  \<^verbatim>\<open>dayOfWeek\<close>, \<^verbatim>\<open>service\<close>, \<^verbatim>\<open>staff\<close> and \<^verbatim>\<open>availability\<close> are
  left out).
\<close>

record slotsData =
  data_date :: "int option"
  availableSlots :: "timeRange list"
  existingAppointments :: "nat option"

text \<open>
  \<^verbatim>\<open>
  const { staff, service, date } = req.query;
  if (!staff || !service || !date) 400
  const serviceDoc = await Service.findById(service);   if (!serviceDoc) 404
  const staffDoc = await Staff.findById(staff);         if (!staffDoc) 404
  const appointmentDate = new Date(date);
  const dayOfWeek = appointmentDate.toLocaleDateString('en-US', { weekday: 'long' });
  const availability = staffDoc.availability.find(slot => slot.dayOfWeek === dayOfWeek);
  if (!availability) return res.status(200).json({ success: true,
                               data: { date: appointmentDate, availableSlots: [] } });
  const startOfDay = new Date(appointmentDate.setHours(0, 0, 0, 0));
  const endOfDay = new Date(appointmentDate.setHours(23, 59, 59, 999));
  const appointments = await Appointment.find({ staff: staff,
      appointmentDate: { $gte: startOfDay, $lte: endOfDay },
      status: { $nin: ['Cancelled', 'No Show'] } }).sort({ startTime: 1 });
  const availableSlots = calculateAvailableSlots(availability.startTime,
      availability.endTime, serviceDoc.durationMinutes, appointments);
  ... 200
  \<close>
  A rejected promise is caught: \<^verbatim>\<open>res.status(500)\<close>. The weekday of an Invalid Date
  is the string \<^verbatim>\<open>'Invalid Date'\<close>, and a query on an Invalid Date is rejected.
  \<^verbatim>\<open>setHours\<close> changes \<^verbatim>\<open>appointmentDate\<close> in place, so the date of the last
  response is the end of the day.
\<close>

definition requestedDay :: "host \<Rightarrow> string \<Rightarrow> string" where
  "requestedDay h date =
     (case parseDate h date of None \<Rightarrow> ''Invalid Date'' | Some t \<Rightarrow> weekday h t)"

definition available_slots_callback ::
  "host \<Rightarrow> collections \<Rightarrow> slotQuery \<Rightarrow> slotsData response"
where
  "available_slots_callback h db q =
     (if staffParam q = [] \<or> serviceParam q = [] \<or> dateParam q = []
      then Failure 400 MissingParameters
      else
        case Service_findById db (serviceParam q) of
          Rejected \<Rightarrow> Failure 500 Caught
        | Null \<Rightarrow> Failure 404 ServiceNotFound
        | Doc serviceDoc \<Rightarrow>
           (case Staff_findById db (staffParam q) of
              Rejected \<Rightarrow> Failure 500 Caught
            | Null \<Rightarrow> Failure 404 StaffNotFound
            | Doc staffDoc \<Rightarrow>
               (let requested = parseDate h (dateParam q)
                in case List.find (\<lambda>slot. dayOfWeek slot = requestedDay h (dateParam q))
                          (availability staffDoc) of
                     None \<Rightarrow>
                       Success 200 \<lparr>data_date = requested, availableSlots = [],
                                    existingAppointments = None\<rparr>
                   | Some window \<Rightarrow>
                      (case requested of
                         None \<Rightarrow> Failure 500 Caught
                       | Some t \<Rightarrow>
                          (let existing =
                                 sort_key startTime
                                   (filter (\<lambda>a. staff a = staffParam q
                                        \<and> startOfDay h t \<le> appointmentDate a
                                        \<and> appointmentDate a \<le> endOfDay h t
                                        \<and> status a \<noteq> Cancelled \<and> status a \<noteq> NoShow)
                                      (appointments db))
                           in Success 200
                                \<lparr>data_date = Some (endOfDay h t),
                                  availableSlots =
                                    calculateAvailableSlots (startTime window) (endTime window)
                                      (durationMinutes serviceDoc) existing,
                                  existingAppointments = Some (length existing)\<rparr>)))))"

section \<open>The GET routes of the appointments router\<close>

text \<open>
  The router is mounted at \<^verbatim>\<open>/api/appointments\<close>; its GET routes, in the order in which
  they are registered:
  \<^verbatim>\<open>
  router.get('/', protect, ...)                                   (line 76)
  router.get('/:id', protect, ...)                                (line 140)
  router.get('/today', protect, authorize('staff', 'admin'), ...) (line 577)
  router.get('/stats', protect, authorize('admin'), ...)          (line 599)
  router.get('/available-slots', ...)                             (line 679)
  \<close>
  Express tries the routes in that order and runs the handlers of the first one whose path
  matches; a later route is tried only when a handler calls \<^verbatim>\<open>next()\<close> without
  having answered. \<^verbatim>\<open>'/:id'\<close> matches every path of one non-empty segment, and
  \<^verbatim>\<open>req.params.id\<close> is that segment. The path of a request is the list of its
  segments below the mount point.
\<close>

datatype routePath = Root | Param | Literal string

datatype handlerName = GetAll | GetById | Today | Stats | AvailableSlots

definition getRoutes :: "(routePath \<times> handlerName) list" where
  "getRoutes =
     [(Root, GetAll), (Param, GetById), (Literal ''today'', Today), (Literal ''stats'', Stats),
      (Literal ''available-slots'', AvailableSlots)]"

fun pathMatches :: "routePath \<Rightarrow> string list \<Rightarrow> bool" where
  "pathMatches Root segments = (segments = [])"
| "pathMatches Param segments = (length segments = 1 \<and> [] \<notin> set segments)"
| "pathMatches (Literal name) segments = (segments = [name])"

definition firstRoute :: "string list \<Rightarrow> handlerName option" where
  "firstRoute segments =
     map_option snd (List.find (\<lambda>route. pathMatches (fst route) segments) getRoutes)"

text \<open>
  \<^verbatim>\<open>Appointment.findById(req.params.id)\<close>: Mongoose casts the string to an ObjectId
  before it queries, and a string that is not an ObjectId (24 hexadecimal digits) rejects
  the promise with a \<^verbatim>\<open>CastError\<close>. (Older versions of Mongoose also take any string
  of 12 characters; no route name of this router has 12.)
\<close>

definition isObjectId :: "string \<Rightarrow> bool" where
  "isObjectId s = (length s = 24 \<and> list_all (\<lambda>c. c \<in> set ''0123456789abcdefABCDEF'') s)"

definition Appointment_findById :: "appointment list \<Rightarrow> string \<Rightarrow> appointment lookup" where
  "Appointment_findById stored i =
     (if isObjectId i
      then (case List.find (\<lambda>a. appt_id a = i) stored of None \<Rightarrow> Null | Some a \<Rightarrow> Doc a)
      else Rejected)"

text \<open>
  The handlers of \<^verbatim>\<open>'/:id'\<close>. \<^verbatim>\<open>protect\<close> answers 401 when the request carries no
  token, or a token that does not verify, or the token of a user who is unknown or
  deactivated; otherwise it sets \<^verbatim>\<open>req.user\<close> and calls \<^verbatim>\<open>next()\<close>. Here the
  authenticated user is \<open>None\<close> in the first case. Then
  \<^verbatim>\<open>
  try {
    const appointment = await Appointment.findById(req.params.id)...;
    if (!appointment) 404
    if (req.user.role === 'patient' && appointment.patient._id.toString() !== req.user.id) 403
    res.status(200).json({ success: true, data: appointment });
  } catch (error) { res.status(500).json({ success: false, message: error.message }); }
  \<close>
  Every branch answers; none calls \<^verbatim>\<open>next()\<close>.
\<close>

datatype byIdReply =
    NotAuthorized401
  | AppointmentNotFound404
  | NotYourAppointment403
  | CastError500
  | Found200 appointment

definition get_by_id :: "appointment list \<Rightarrow> user option \<Rightarrow> string \<Rightarrow> byIdReply" where
  "get_by_id stored auth paramId =
     (case auth of
        None \<Rightarrow> NotAuthorized401
      | Some u \<Rightarrow>
         (case Appointment_findById stored paramId of
            Rejected \<Rightarrow> CastError500
          | Null \<Rightarrow> AppointmentNotFound404
          | Doc a \<Rightarrow>
              if role u = ''patient'' \<and> patient a \<noteq> uid u then NotYourAppointment403
              else Found200 a))"

text \<open>
  What a GET request below \<^verbatim>\<open>/api/appointments\<close> is answered with: by the handlers of
  \<^verbatim>\<open>'/:id'\<close>, by the callback of \<^verbatim>\<open>'/available-slots'\<close>, by one of the three list
  handlers (their answers are not modelled), or by no route of this router.
\<close>

datatype getReply =
    ById byIdReply
  | Slots "slotsData response"
  | ListHandler handlerName
  | NoRoute

definition router_get ::
  "host \<Rightarrow> collections \<Rightarrow> user option \<Rightarrow> string list \<Rightarrow> slotQuery \<Rightarrow> getReply"
where
  "router_get h db auth segments q =
     (case firstRoute segments of
        None \<Rightarrow> NoRoute
      | Some GetById \<Rightarrow> ById (get_by_id (appointments db) auth (concat segments))
      | Some AvailableSlots \<Rightarrow> Slots (available_slots_callback h db q)
      | Some other \<Rightarrow> ListHandler other)"

section \<open>The unique index of the Appointment collection\<close>

text \<open>
  \<^verbatim>\<open>
  appointmentSchema.index(
    { staff: 1, appointmentDate: 1, startTime: 1, endTime: 1 },
    { unique: true,
      partialFilterExpression: { status: { $nin: ['Cancelled', 'No Show'] } } });
  \<close>
  \<open>slotKey\<close> is the key of the index, \<open>indexed\<close> its filter, and \<open>noDouble\<close> the
  invariant that the index is declared for: the documents that pass the filter have
  pairwise different keys.
\<close>

definition slotKey :: "appointment \<Rightarrow> string \<times> int \<times> string \<times> string" where
  "slotKey a = (staff a, appointmentDate a, startTime a, endTime a)"

definition indexed :: "appointment \<Rightarrow> bool" where
  "indexed a = (status a \<noteq> Cancelled \<and> status a \<noteq> NoShow)"

definition noDouble :: "appointment list \<Rightarrow> bool" where
  "noDouble stored = distinct (map slotKey (filter indexed stored))"

text \<open>
  Modelled from the spec: the storage layer rejects a write that would duplicate the tuple
  among the appointments that are neither cancelled nor a no-show. The repository only
  declares the index; that the storage engine builds it and enforces it on every insert
  and update is the spec's statement, written out here. \<open>duplicateKey stored doc\<close>: the
  document passes the filter and another stored document that passes it has the same key.
\<close>

definition duplicateKey :: "appointment list \<Rightarrow> appointment \<Rightarrow> bool" where
  "duplicateKey stored doc =
     (indexed doc
      \<and> list_ex (\<lambda>b. appt_id b \<noteq> appt_id doc \<and> indexed b \<and> slotKey b = slotKey doc) stored)"

text \<open>
  Modelled from the spec: the insert of the storage layer. It adds a document under an
  \<^verbatim>\<open>_id\<close> that is not in use; a write that would duplicate the tuple is rejected
  (\<open>None\<close>), and so is one that the engine refuses for any other reason (\<open>ok\<close> is
  false).
\<close>

definition insertOne :: "bool \<Rightarrow> appointment list \<Rightarrow> appointment \<Rightarrow> appointment list option" where
  "insertOne ok stored doc =
     (if ok \<and> \<not> duplicateKey stored doc \<and> list_all (\<lambda>b. appt_id b \<noteq> appt_id doc) stored
      then Some (stored @ [doc]) else None)"

text \<open>
  Modelled from the spec: the update of the storage layer. It replaces the document of the
  same \<^verbatim>\<open>_id\<close>, and is rejected like an insert.
\<close>

definition replaceOne :: "bool \<Rightarrow> appointment list \<Rightarrow> appointment \<Rightarrow> appointment list option" where
  "replaceOne ok stored doc =
     (if ok \<and> \<not> duplicateKey stored doc
      then Some (map (\<lambda>b. if appt_id b = appt_id doc then doc else b) stored) else None)"

text \<open>
  The methods of the schema that write; each ends with \<^verbatim>\<open>return this.save()\<close>
  (the fields that record who, when and why are not modelled):
  \<^verbatim>\<open>
  confirm:     this.status = 'Confirmed';
  cancel:      this.status = 'Cancelled';
  reschedule:  this.appointmentDate = newDate; this.startTime = newStartTime;
               this.endTime = newEndTime; this.status = 'Rescheduled';
  complete:    this.status = 'Completed';
  \<close>
\<close>

definition confirm :: "appointment \<Rightarrow> appointment" where
  "confirm a = a\<lparr>status := Confirmed\<rparr>"

definition cancel :: "appointment \<Rightarrow> appointment" where
  "cancel a = a\<lparr>status := Cancelled\<rparr>"

definition reschedule :: "int \<Rightarrow> string \<Rightarrow> string \<Rightarrow> appointment \<Rightarrow> appointment" where
  "reschedule newDate newStartTime newEndTime a =
     a\<lparr>appointmentDate := newDate, startTime := newStartTime, endTime := newEndTime,
       status := Rescheduled\<rparr>"

definition complete :: "appointment \<Rightarrow> appointment" where
  "complete a = a\<lparr>status := Completed\<rparr>"

text \<open>
  The writes that the routes make to the collection, after whatever checks the handler
  runs first: \<^verbatim>\<open>Appointment.create\<close> (POST \<^verbatim>\<open>/\<close>),
  \<^verbatim>\<open>Appointment.findByIdAndUpdate(id, req.body)\<close> (PUT \<^verbatim>\<open>/:id\<close>; the argument is the
  document with the fields of the body set, whatever they are), and the four methods on the
  document found by its id (PUT \<^verbatim>\<open>/:id/confirm\<close>, DELETE \<^verbatim>\<open>/:id\<close>,
  PUT \<^verbatim>\<open>/:id/reschedule\<close>, PUT \<^verbatim>\<open>/:id/complete\<close>). No route deletes a document.
  \<open>applyOp\<close> is the collection after the write; a write that is rejected, or whose
  document is not found, leaves it unchanged.
\<close>

datatype operation =
    Create appointment
  | FindByIdAndUpdate appointment
  | Confirm string
  | Cancel string
  | Reschedule string int string string
  | Complete string

definition saveAfter ::
  "bool \<Rightarrow> appointment list \<Rightarrow> string \<Rightarrow> (appointment \<Rightarrow> appointment) \<Rightarrow> appointment list"
where
  "saveAfter ok stored i method =
     (case List.find (\<lambda>a. appt_id a = i) stored of
        None \<Rightarrow> stored
      | Some a \<Rightarrow> (case replaceOne ok stored (method a) of None \<Rightarrow> stored | Some stored' \<Rightarrow> stored'))"

fun applyOp :: "bool \<Rightarrow> appointment list \<Rightarrow> operation \<Rightarrow> appointment list" where
  "applyOp ok stored (Create doc) =
     (case insertOne ok stored doc of None \<Rightarrow> stored | Some stored' \<Rightarrow> stored')"
| "applyOp ok stored (FindByIdAndUpdate doc) =
     (case replaceOne ok stored doc of None \<Rightarrow> stored | Some stored' \<Rightarrow> stored')"
| "applyOp ok stored (Confirm i) = saveAfter ok stored i confirm"
| "applyOp ok stored (Cancel i) = saveAfter ok stored i cancel"
| "applyOp ok stored (Reschedule i newDate newStartTime newEndTime) =
     saveAfter ok stored i (reschedule newDate newStartTime newEndTime)"
| "applyOp ok stored (Complete i) = saveAfter ok stored i complete"

text \<open>
  A run of the service: the collection after a list of writes, each with the engine's
  verdict on it, starting from the empty collection.
\<close>

definition runOps :: "(bool \<times> operation) list \<Rightarrow> appointment list" where
  "runOps ops = foldl (\<lambda>stored step. applyOp (fst step) stored (snd step)) [] ops"

section \<open>Replacing availability: PUT /api/staff/:id/availability\<close>

text \<open>
  \<^verbatim>\<open>
  for (const slot of availability) {
    if (!['Monday', ..., 'Sunday'].includes(slot.dayOfWeek)) 400 'Invalid day of week'
    if (!/^([0-1]?[0-9]|2[0-3]):[0-5][0-9]$/.test(slot.startTime) ||
        !/^([0-1]?[0-9]|2[0-3]):[0-5][0-9]$/.test(slot.endTime)) 400 'Invalid time format. Use HH:MM'
    if (slot.startTime >= slot.endTime) 400 'Start time must be before end time'
  }
  \<close>
  The loop returns at the first slot that fails; \<open>None\<close> when every slot passes.
\<close>

definition daysOfWeek :: "string list" where
  "daysOfWeek =
     [''Monday'', ''Tuesday'', ''Wednesday'', ''Thursday'', ''Friday'', ''Saturday'', ''Sunday'']"

fun validateAvailability :: "availabilityWindow list \<Rightarrow> failure option" where
  "validateAvailability [] = None"
| "validateAvailability (slot # rest) =
     (if dayOfWeek slot \<notin> set daysOfWeek then Some InvalidDayOfWeek
      else if \<not> (valid_time (startTime slot) \<and> valid_time (endTime slot))
      then Some InvalidTimeFormat
      else if startTime slot \<ge> endTime slot then Some StartNotBeforeEnd
      else validateAvailability rest)"

text \<open>
  \<^verbatim>\<open>
  const staff = await Staff.findById(req.params.id);    if (!staff) 404
  if (req.user.role !== 'admin' && req.user.id !== req.params.id) 403
  const { availability } = req.body;
  if (!Array.isArray(availability)) 400
  for (...) {...}
  staff.availability = availability;
  await staff.save();
  res.status(200).json({ success: true, data: staff });
  \<close>
  The body's \<^verbatim>\<open>availability\<close> is \<open>None\<close> when it is not an array. The document of
  the response is the document saved; the schema validators of \<^verbatim>\<open>save\<close> test the same
  enum and the same regular expression. A rejected promise is caught:
  \<^verbatim>\<open>res.status(400)\<close>.
\<close>

definition router_put_availability ::
  "collections \<Rightarrow> user \<Rightarrow> string \<Rightarrow> availabilityWindow list option \<Rightarrow> staffDoc response"
where
  "router_put_availability db u paramId body =
     (case Staff_findById db paramId of
        Rejected \<Rightarrow> Failure 400 Caught
      | Null \<Rightarrow> Failure 404 StaffNotFound
      | Doc staffDoc \<Rightarrow>
          if role u \<noteq> ''admin'' \<and> uid u \<noteq> paramId then Failure 403 NotAuthorized
          else
            case body of
              None \<Rightarrow> Failure 400 NotAnArray
            | Some windows \<Rightarrow>
               (case validateAvailability windows of
                  Some f \<Rightarrow> Failure 400 f
                | None \<Rightarrow> Success 200 (staffDoc\<lparr>availability := windows\<rparr>)))"

section \<open>A concrete clinic\<close>

text \<open>
  An instance of the platform and of the collections, for evaluating the handlers: a server
  whose time zone is UTC (1 January 1970 was a Thursday), whose storage engine takes every
  document, and whose date parser knows one date string; a clinic with the patient
  \<open>p1\<close>, the staff member \<open>s1\<close> with the given availability and the service \<open>v1\<close>
  of the given nominal duration; \<open>a0\<close> is the id of the first appointment stored. The
  instant \<open>1767571200000\<close> is Monday 5 January 2026, 00:00 UTC, and \<open>1762128000000\<close>
  is 3 November 2025.
\<close>

definition p1 :: string where
  "p1 = ''64f1a0000000000000000001''"

definition s1 :: string where
  "s1 = ''64f1b0000000000000000001''"

definition v1 :: string where
  "v1 = ''64f1c0000000000000000001''"

definition a0 :: string where
  "a0 = ''64f1d00000000000000000'' @ ''00''"

definition a1 :: string where
  "a1 = ''64f1d00000000000000000'' @ ''01''"

text \<open>
  The appointment of \<open>p1\<close> with \<open>s1\<close> on Monday 5 January 2026 from 09:00 to 10:00,
  under a given \<^verbatim>\<open>_id\<close> and status.
\<close>

definition monday9 :: "string \<Rightarrow> status \<Rightarrow> appointment" where
  "monday9 i st =
     \<lparr>startTime = ''09:00'', endTime = ''10:00'', patient = p1, staff = s1, service = v1,
      appointmentDate = 1767571200000, appt_id = i, status = st\<rparr>"

definition utcWeekday :: "int \<Rightarrow> string" where
  "utcWeekday t =
     [''Thursday'', ''Friday'', ''Saturday'', ''Sunday'', ''Monday'', ''Tuesday'', ''Wednesday'']
       ! nat ((t div 86400000) mod 7)"

definition utcHost :: "int \<Rightarrow> host" where
  "utcHost clock =
     \<lparr>now = clock, weekday = utcWeekday,
      parseDate = (\<lambda>s. if s = ''2026-01-05'' then Some 1767571200000 else None),
      startOfDay = (\<lambda>t. t - t mod 86400000),
      endOfDay = (\<lambda>t. t - t mod 86400000 + 86399999),
      storeAccepts = (\<lambda>stored doc. True),
      newObjectId = (\<lambda>stored.
         ''64f1d00000000000000000'' @ padStart2 (toString (int (length stored))))\<rparr>"

definition clinic :: "availabilityWindow list \<Rightarrow> int \<Rightarrow> appointment list \<Rightarrow> collections" where
  "clinic windows nominal stored =
     \<lparr>Patient_findById = (\<lambda>i. if i = p1 then Doc () else Null),
      Staff_findById = (\<lambda>i. if i = s1
         then Doc \<lparr>isActive = True, specialty = Some ''Physiotherapy'', availability = windows\<rparr>
         else Null),
      Service_findById = (\<lambda>i. if i = v1
         then Doc \<lparr>isActive = True, durationMinutes = nominal, specialtyRequired = None\<rparr>
         else Null),
      appointments = stored\<rparr>"

section \<open>Decimal numerals and time strings\<close>

text \<open>The two recursive functions are unfolded by hand in the proofs below.\<close>

declare toString_nat.simps [simp del]
declare slotLoop.simps [simp del]

lemma below_ten: "d < 10 \<Longrightarrow> d \<in> {0, 1, 2, 3, 4, 5, 6, 7, 8, 9::nat}"
  by auto

lemma digitChar_isDigit: "d < 10 \<Longrightarrow> isDigit (digitChar d)"
  by (drule below_ten) (auto simp: isDigit_def digitChar_def)

lemma digitVal_digitChar: "d < 10 \<Longrightarrow> digitVal (digitChar d) = int d"
  by (drule below_ten) (auto simp: digitVal_def digitChar_def)

lemma isDigit_not_colon: "isDigit c \<Longrightarrow> c \<noteq> CHR '':''"
  by (auto simp: isDigit_def)

lemma digitVal_nonneg: "0 \<le> digitVal c"
  by (simp add: digitVal_def)

lemma decimal_snoc: "decimal (s @ [c]) = 10 * decimal s + digitVal c"
  by (simp add: decimal_def)

lemma toString_nat_digits: "list_all isDigit (toString_nat n)"
proof (induction n rule: toString_nat.induct)
  case (1 n)
  show ?case
  proof (cases "n < 10")
    case True
    then show ?thesis by (simp add: toString_nat.simps [of n] digitChar_isDigit)
  next
    case False
    with 1 show ?thesis by (simp add: toString_nat.simps [of n] digitChar_isDigit)
  qed
qed

lemma toString_nat_decimal: "decimal (toString_nat n) = int n"
proof (induction n rule: toString_nat.induct)
  case (1 n)
  show ?case
  proof (cases "n < 10")
    case True
    then show ?thesis
      by (simp add: toString_nat.simps [of n] decimal_def digitVal_digitChar)
  next
    case False
    with 1 have "decimal (toString_nat (n div 10)) = int (n div 10)" by simp
    with False show ?thesis
      by (simp add: toString_nat.simps [of n] decimal_snoc digitVal_digitChar zdiv_int zmod_int)
  qed
qed

lemma Number_digits: "list_all isDigit s \<Longrightarrow> Number s = Some (decimal s)"
  by (simp add: Number_def decimal_def)

lemma decimal_zeros: "decimal (replicate k CHR ''0'' @ s) = decimal s"
proof -
  have "foldl (\<lambda>n c. 10 * n + digitVal c) 0 (replicate k CHR ''0'') = 0"
    by (induction k) (simp_all add: digitVal_def)
  then show ?thesis by (simp add: decimal_def)
qed

lemma isDigit_zero: "isDigit CHR ''0''"
  by (simp add: isDigit_def)

lemma padStart2_digits: "list_all isDigit s \<Longrightarrow> list_all isDigit (padStart2 s)"
  by (auto simp: padStart2_def list_all_iff isDigit_zero)

lemma Number_padStart2_toString:
  "0 \<le> i \<Longrightarrow> Number (padStart2 (toString i)) = Some i"
  by (simp add: Number_digits padStart2_digits toString_def toString_nat_digits)
     (simp add: padStart2_def decimal_zeros toString_nat_decimal)

lemma split_colon_plain: "CHR '':'' \<notin> set xs \<Longrightarrow> split_colon xs = [xs]"
  by (induction xs) auto

lemma split_colon_at:
  "CHR '':'' \<notin> set xs \<Longrightarrow> split_colon (xs @ CHR '':'' # ys) = xs # split_colon ys"
  by (induction xs) auto

lemma digits_no_colon: "list_all isDigit s \<Longrightarrow> CHR '':'' \<notin> set s"
  by (auto simp: list_all_iff dest: isDigit_not_colon)

lemma timeToMinutes_join:
  assumes "list_all isDigit hs" "list_all isDigit ms"
  shows "timeToMinutes (hs @ '':'' @ ms) = Some (decimal hs * 60 + decimal ms)"
  using assms
  by (simp add: timeToMinutes_def split_colon_at split_colon_plain digits_no_colon Number_digits)

lemma decimal_nonneg: "0 \<le> decimal s"
proof (induction s rule: rev_induct)
  case Nil
  show ?case by (simp add: decimal_def)
next
  case (snoc c s)
  with digitVal_nonneg [of c] show ?case by (simp add: decimal_snoc)
qed


lemma Number_nonneg: "Number s = Some n \<Longrightarrow> 0 \<le> n"
  using decimal_nonneg [of s] by (simp add: Number_def decimal_def split: if_splits)

lemma timeToMinutes_minutesToTime:
  assumes "0 \<le> m"
  shows "timeToMinutes (minutesToTime m) = Some m"
proof -
  let ?h = "padStart2 (toString (m div 60))" and ?r = "padStart2 (toString (m mod 60))"
  from assms have h: "0 \<le> m div 60" and r: "0 \<le> m mod 60" by simp_all
  have dh: "list_all isDigit ?h" and dr: "list_all isDigit ?r"
    using h r by (simp_all add: padStart2_digits toString_def toString_nat_digits)
  have "Number ?h = Some (m div 60)" "Number ?r = Some (m mod 60)"
    using h r by (simp_all add: Number_padStart2_toString)
  with dh dr have "decimal ?h = m div 60" "decimal ?r = m mod 60"
    by (simp_all add: Number_digits)
  with timeToMinutes_join [OF dh dr] have "timeToMinutes (?h @ '':'' @ ?r) = Some m"
    by simp
  with assms show ?thesis by (simp add: minutesToTime_def js_rem_def)
qed

lemma timeToMinutes_SomeD:
  "timeToMinutes s = Some m \<Longrightarrow> \<exists>h r hv rv. Number h = Some hv \<and> Number r = Some rv \<and> m = hv * 60 + rv"
  unfolding timeToMinutes_def
  by (simp split: list.splits option.splits) blast

lemma timeToMinutes_nonneg:
  assumes "timeToMinutes s = Some m"
  shows "0 \<le> m"
proof -
  from timeToMinutes_SomeD [OF assms] obtain h r hv rv
    where "Number h = Some hv" "Number r = Some rv" "m = hv * 60 + rv" by blast
  with Number_nonneg [of h hv] Number_nonneg [of r rv] show ?thesis by simp
qed

lemma slotLoop_shape:
  "\<exists>cs. slotLoop c d e appts acc = acc @ map (\<lambda>x. \<lparr>startTime = minutesToTime x, endTime = minutesToTime (x + d)\<rparr>) cs
     \<and> sorted_wrt (<) cs
     \<and> set cs = {x. (\<exists>k::nat. x = c + 30 * int k) \<and> x + d \<le> e \<and> \<not> hasConflict x d appts}"
proof (induction c d e appts acc rule: slotLoop.induct)
  case (1 c d e appts acc)
  let ?mk = "\<lambda>x. \<lparr>startTime = minutesToTime x, endTime = minutesToTime (x + d)\<rparr>"
  let ?S = "\<lambda>c. {x. (\<exists>k::nat. x = c + 30 * int k) \<and> x + d \<le> e \<and> \<not> hasConflict x d appts}"
  show ?case
  proof (cases "c + d \<le> e")
    case False
    have "?S c = {}"
    proof -
      have "\<not> (c + 30 * int k) + d \<le> e" for k
        using False by simp
      then show ?thesis by auto
    qed
    with False show ?thesis
      by (intro exI [of _ "[]"]) (simp add: slotLoop.simps [of c])
  next
    case True
    let ?acc' = "if hasConflict c d appts then acc else acc @ [?mk c]"
    from 1 [OF True] obtain cs where
      eq: "slotLoop (c + 30) d e appts ?acc' = ?acc' @ map ?mk cs"
      and srt: "sorted_wrt (<) cs" and st: "set cs = ?S (c + 30)"
      by blast
    have step: "slotLoop c d e appts acc = ?acc' @ map ?mk cs"
      using True eq by (subst slotLoop.simps) simp
    have split: "?S c = (if hasConflict c d appts then {} else {c}) \<union> ?S (c + 30)"
    proof (intro set_eqI iffI)
      fix x assume x: "x \<in> ?S c"
      then obtain k :: nat where k: "x = c + 30 * int k" by blast
      show "x \<in> (if hasConflict c d appts then {} else {c}) \<union> ?S (c + 30)"
      proof (cases k)
        case 0
        with k x show ?thesis by auto
      next
        case (Suc j)
        with k have "x = (c + 30) + 30 * int j" by simp
        with x show ?thesis by blast
      qed
    next
      fix x assume x: "x \<in> (if hasConflict c d appts then {} else {c}) \<union> ?S (c + 30)"
      then consider "x = c" "\<not> hasConflict c d appts" | "x \<in> ?S (c + 30)"
        by (auto split: if_splits)
      then show "x \<in> ?S c"
      proof cases
        case 1
        have "c = c + 30 * int 0" by simp
        with 1 True show ?thesis by blast
      next
        case 2
        then obtain j :: nat where "x = (c + 30) + 30 * int j" by blast
        then have "x = c + 30 * int (Suc j)" by simp
        with 2 show ?thesis by blast
      qed
    qed
    have above: "c < x" if "x \<in> set cs" for x
      using that st by auto
    show ?thesis
    proof (cases "hasConflict c d appts")
      case True
      with step srt st split show ?thesis
        by (intro exI [of _ cs]) simp
    next
      case False
      with step srt st split above show ?thesis
        by (intro exI [of _ "c # cs"]) auto
    qed
  qed
qed

section \<open>Evaluation on concrete inputs\<close>

lemmas time_eval =
  calculateAvailableSlots_def timeToMinutes_def Number_def decimal_def isDigit_def digitVal_def
  hasConflict_def minutesToTime_def toString_def padStart2_def js_rem_def digitChar_def
  toString_nat.simps slotLoop.simps

lemmas handler_eval =
  router_post_def bookWith_def appointmentValidation_def Appointment_create_def
  calculateDurationMinutes_def clockOfDate_def durationOutOfTolerance_def hhmm_def
  checkConflict_def truthy_def utcHost_def utcWeekday_def clinic_def p1_def s1_def v1_def a0_def
  router_put_availability_def daysOfWeek_def available_slots_callback_def requestedDay_def

section \<open>String order and clock order\<close>

text \<open>
  On times written with a two-digit hour the lexicographic order of the strings is the order
  of the minutes since midnight, and equal strings are equal times.
\<close>

lemma lex10:
  fixes q r q' r' :: int
  shows "0 \<le> r \<Longrightarrow> r < 10 \<Longrightarrow> 0 \<le> r' \<Longrightarrow> r' < 10 \<Longrightarrow>
     (q < q' \<or> q = q' \<and> r < r') = (10 * q + r < 10 * q' + r')"
  by arith

lemma lex60:
  fixes q r q' r' :: int
  shows "0 \<le> r \<Longrightarrow> r < 60 \<Longrightarrow> 0 \<le> r' \<Longrightarrow> r' < 60 \<Longrightarrow>
     (q < q' \<or> q = q' \<and> r < r') = (q * 60 + r < q' * 60 + r')"
  by arith

lemma digitVal_numerals:
  "digitVal CHR ''0'' = 0" "digitVal CHR ''1'' = 1" "digitVal CHR ''2'' = 2"
  "digitVal CHR ''3'' = 3" "digitVal CHR ''4'' = 4" "digitVal CHR ''5'' = 5"
  "digitVal CHR ''6'' = 6" "digitVal CHR ''7'' = 7" "digitVal CHR ''8'' = 8"
  "digitVal CHR ''9'' = 9"
  by (simp_all add: digitVal_def)

lemma isDigitE:
  assumes "isDigit c"
  obtains "c = CHR ''0''" | "c = CHR ''1''" | "c = CHR ''2''" | "c = CHR ''3''" | "c = CHR ''4''"
    | "c = CHR ''5''" | "c = CHR ''6''" | "c = CHR ''7''" | "c = CHR ''8''" | "c = CHR ''9''"
  using assms unfolding isDigit_def by auto

lemma digit_code: "isDigit c \<Longrightarrow> int (of_char c) = 48 + digitVal c"
  by (erule isDigitE) (simp_all add: digitVal_numerals)

lemma digit_less:
  assumes "isDigit c" "isDigit d"
  shows "(c < d) = (digitVal c < digitVal d)"
proof -
  have "(c < d) = (int (of_char c) < int (of_char d))"
    by (simp add: less_char_def)
  with digit_code [OF assms(1)] digit_code [OF assms(2)] show ?thesis by simp
qed

lemma digit_eq:
  assumes "isDigit c" "isDigit d"
  shows "(c = d) = (digitVal c = digitVal d)"
proof -
  have "(c = d) = (int (of_char c) = int (of_char d))"
    by simp
  with digit_code [OF assms(1)] digit_code [OF assms(2)] show ?thesis by simp
qed

lemma digit_range: "isDigit c \<Longrightarrow> 0 \<le> digitVal c \<and> digitVal c < 10"
  by (erule isDigitE) (simp_all add: digitVal_numerals)

lemma tens_of_minutes: "c \<in> set ''012345'' \<Longrightarrow> isDigit c \<and> digitVal c < 6"
  by (auto simp: isDigit_def digitVal_numerals)

lemma hhmmE:
  assumes "hhmm v"
  obtains h1 h2 m1 m2 where "v = [h1, h2, CHR '':'', m1, m2]"
    "isDigit h1" "isDigit h2" "isDigit m1" "digitVal m1 < 6" "isDigit m2"
proof -
  from assms have len: "length v = 5" and ok: "valid_time v" by (simp_all add: hhmm_def)
  from len obtain h1 h2 c m1 m2 where v: "v = [h1, h2, c, m1, m2]"
    by (auto simp: length_Suc_conv numeral_eq_Suc)
  from ok v have c: "c = CHR '':''" and m: "m1 \<in> set ''012345''" "isDigit m2" by auto
  from ok v have h: "isDigit h1 \<and> isDigit h2" by (auto simp: isDigit_def)
  from that [of h1 h2 m1 m2] v c m h tens_of_minutes [OF m(1)] show thesis by blast
qed

lemma timeToMinutes_hhmm:
  assumes "isDigit h1" "isDigit h2" "isDigit m1" "isDigit m2"
  shows "timeToMinutes [h1, h2, CHR '':'', m1, m2] =
           Some ((10 * digitVal h1 + digitVal h2) * 60 + (10 * digitVal m1 + digitVal m2))"
  using timeToMinutes_join [of "[h1, h2]" "[m1, m2]"] assms by (simp add: decimal_def)

lemma eq10:
  fixes q r q' r' :: int
  assumes "0 \<le> r" "r < 10" "0 \<le> r'" "r' < 10"
  shows "(q = q' \<and> r = r') = (10 * q + r = 10 * q' + r')"
proof -
  have "(10 * q + r = 10 * q' + r')
      = (\<not> 10 * q + r < 10 * q' + r' \<and> \<not> 10 * q' + r' < 10 * q + r)"
    by auto
  also have "\<dots> = (\<not> (q < q' \<or> q = q' \<and> r < r') \<and> \<not> (q' < q \<or> q' = q \<and> r' < r))"
    by (simp only: lex10 [OF assms] lex10 [OF assms(3,4,1,2)])
  also have "\<dots> = (q = q' \<and> r = r')"
    by auto
  finally show ?thesis by simp
qed

lemma eq60:
  fixes q r q' r' :: int
  assumes "0 \<le> r" "r < 60" "0 \<le> r'" "r' < 60"
  shows "(q = q' \<and> r = r') = (q * 60 + r = q' * 60 + r')"
proof -
  have "(q * 60 + r = q' * 60 + r')
      = (\<not> q * 60 + r < q' * 60 + r' \<and> \<not> q' * 60 + r' < q * 60 + r)"
    by auto
  also have "\<dots> = (\<not> (q < q' \<or> q = q' \<and> r < r') \<and> \<not> (q' < q \<or> q' = q \<and> r' < r))"
    by (simp only: lex60 [OF assms] lex60 [OF assms(3,4,1,2)])
  also have "\<dots> = (q = q' \<and> r = r')"
    by auto
  finally show ?thesis by simp
qed

lemma clock_lex:
  fixes a1 a2 a3 a4 b1 b2 b3 b4 :: int
  assumes "0 \<le> a2" "a2 < 10" "0 \<le> a3" "a3 < 6" "0 \<le> a4" "a4 < 10"
      and "0 \<le> b2" "b2 < 10" "0 \<le> b3" "b3 < 6" "0 \<le> b4" "b4 < 10"
  shows "(a1 < b1 \<or> a1 = b1 \<and> (a2 < b2 \<or> a2 = b2 \<and> (a3 < b3 \<or> a3 = b3 \<and> a4 < b4)))
           = ((10 * a1 + a2) * 60 + (10 * a3 + a4) < (10 * b1 + b2) * 60 + (10 * b3 + b4))"
    and "(a1 = b1 \<and> a2 = b2 \<and> a3 = b3 \<and> a4 = b4)
           = ((10 * a1 + a2) * 60 + (10 * a3 + a4) = (10 * b1 + b2) * 60 + (10 * b3 + b4))"
proof -
  let ?la = "10 * a3 + a4" and ?lb = "10 * b3 + b4"
  let ?ha = "10 * a1 + a2" and ?hb = "10 * b1 + b2"
  have small: "0 \<le> ?la" "?la < 60" "0 \<le> ?lb" "?lb < 60"
    using assms(3-6) assms(9-12) by simp_all
  have lo: "(a3 < b3 \<or> a3 = b3 \<and> a4 < b4) = (?la < ?lb)"
    using assms(5,6,11,12) by (rule lex10)
  have loeq: "(a3 = b3 \<and> a4 = b4) = (?la = ?lb)"
    using assms(5,6,11,12) by (rule eq10)
  have hi: "(a1 < b1 \<or> a1 = b1 \<and> a2 < b2) = (?ha < ?hb)"
    using assms(1,2,7,8) by (rule lex10)
  have hieq: "(a1 = b1 \<and> a2 = b2) = (?ha = ?hb)"
    using assms(1,2,7,8) by (rule eq10)
  have "(a1 < b1 \<or> a1 = b1 \<and> (a2 < b2 \<or> a2 = b2 \<and> (a3 < b3 \<or> a3 = b3 \<and> a4 < b4)))
      = ((a1 < b1 \<or> a1 = b1 \<and> a2 < b2) \<or> (a1 = b1 \<and> a2 = b2) \<and> (a3 < b3 \<or> a3 = b3 \<and> a4 < b4))"
    by blast
  also have "\<dots> = (?ha < ?hb \<or> ?ha = ?hb \<and> ?la < ?lb)"
    by (simp only: lo hi hieq)
  also have "\<dots> = (?ha * 60 + ?la < ?hb * 60 + ?lb)"
    using small by (rule lex60)
  finally show "(a1 < b1 \<or> a1 = b1 \<and> (a2 < b2 \<or> a2 = b2 \<and> (a3 < b3 \<or> a3 = b3 \<and> a4 < b4)))
           = (?ha * 60 + ?la < ?hb * 60 + ?lb)" .
  have "(a1 = b1 \<and> a2 = b2 \<and> a3 = b3 \<and> a4 = b4) = ((a1 = b1 \<and> a2 = b2) \<and> (a3 = b3 \<and> a4 = b4))"
    by blast
  also have "\<dots> = (?ha = ?hb \<and> ?la = ?lb)"
    by (simp only: loeq hieq)
  also have "\<dots> = (?ha * 60 + ?la = ?hb * 60 + ?lb)"
    using small by (rule eq60)
  finally show "(a1 = b1 \<and> a2 = b2 \<and> a3 = b3 \<and> a4 = b4) = (?ha * 60 + ?la = ?hb * 60 + ?lb)" .
qed

lemma hhmm_order:
  assumes "hhmm a" "hhmm b"
  shows "\<exists>x y. timeToMinutes a = Some x \<and> timeToMinutes b = Some y
            \<and> (a < b) = (x < y) \<and> (a = b) = (x = y)"
proof -
  from assms(1) obtain a1 a2 a3 a4 where a: "a = [a1, a2, CHR '':'', a3, a4]"
    and da: "isDigit a1" "isDigit a2" "isDigit a3" "digitVal a3 < 6" "isDigit a4"
    by (rule hhmmE)
  from assms(2) obtain b1 b2 b3 b4 where b: "b = [b1, b2, CHR '':'', b3, b4]"
    and db: "isDigit b1" "isDigit b2" "isDigit b3" "digitVal b3 < 6" "isDigit b4"
    by (rule hhmmE)
  let ?x = "(10 * digitVal a1 + digitVal a2) * 60 + (10 * digitVal a3 + digitVal a4)"
  let ?y = "(10 * digitVal b1 + digitVal b2) * 60 + (10 * digitVal b3 + digitVal b4)"
  have ta: "timeToMinutes a = Some ?x" and tb: "timeToMinutes b = Some ?y"
    using a b da db by (simp_all add: timeToMinutes_hhmm)
  have r: "0 \<le> digitVal a2" "digitVal a2 < 10" "0 \<le> digitVal a3" "digitVal a3 < 6"
       "0 \<le> digitVal a4" "digitVal a4 < 10"
       "0 \<le> digitVal b2" "digitVal b2 < 10" "0 \<le> digitVal b3" "digitVal b3 < 6"
       "0 \<le> digitVal b4" "digitVal b4 < 10"
    using digit_range da db by simp_all
  have l1: "(a1 < b1) = (digitVal a1 < digitVal b1)" and e1: "(a1 = b1) = (digitVal a1 = digitVal b1)"
   and l2: "(a2 < b2) = (digitVal a2 < digitVal b2)" and e2: "(a2 = b2) = (digitVal a2 = digitVal b2)"
   and l3: "(a3 < b3) = (digitVal a3 < digitVal b3)" and e3: "(a3 = b3) = (digitVal a3 = digitVal b3)"
   and l4: "(a4 < b4) = (digitVal a4 < digitVal b4)" and e4: "(a4 = b4) = (digitVal a4 = digitVal b4)"
    using da db by (simp_all add: digit_less digit_eq)
  have "(a < b) = (a1 < b1 \<or> a1 = b1 \<and> (a2 < b2 \<or> a2 = b2 \<and> (a3 < b3 \<or> a3 = b3 \<and> a4 < b4)))"
    unfolding a b by simp
  also have "\<dots> = (?x < ?y)"
    unfolding l1 l2 l3 l4 e1 e2 e3 e4 using r by (rule clock_lex(1))
  finally have less: "(a < b) = (?x < ?y)" .
  have "(a = b) = (a1 = b1 \<and> a2 = b2 \<and> a3 = b3 \<and> a4 = b4)"
    unfolding a b by simp
  also have "\<dots> = (?x = ?y)"
    unfolding e1 e2 e3 e4 using r by (rule clock_lex(2))
  finally have "(a = b) = (?x = ?y)" .
  with ta tb less show ?thesis by blast
qed

text \<open>Every string the validators accept parses to a minute of the day.\<close>

lemma valid_time_length: "valid_time v \<Longrightarrow> length v = 4 \<or> length v = 5"
  by (cases v rule: valid_time.cases) simp_all

lemma first_hour_digit: "c \<in> set ''01'' \<Longrightarrow> isDigit c \<and> digitVal c < 2"
  by (auto simp: isDigit_def digitVal_numerals)

lemma second_hour_digit: "c \<in> set ''0123'' \<Longrightarrow> isDigit c \<and> digitVal c < 4"
  by (auto simp: isDigit_def digitVal_numerals)

lemma valid_time_short:
  assumes "valid_time [h, c, m1, m2]"
  shows "\<exists>m. timeToMinutes [h, c, m1, m2] = Some m \<and> 0 \<le> m \<and> m < 1440"
proof -
  from assms have c: "c = CHR '':''" and h: "isDigit h" and m: "m1 \<in> set ''012345''" "isDigit m2"
    by simp_all
  from tens_of_minutes [OF m(1)] have m1: "isDigit m1" "digitVal m1 < 6" by simp_all
  from timeToMinutes_join [of "[h]" "[m1, m2]"] h m1 m(2) have
    "timeToMinutes [h, CHR '':'', m1, m2] = Some (digitVal h * 60 + (10 * digitVal m1 + digitVal m2))"
    by (simp add: decimal_def)
  moreover from digit_range [OF h] digit_range [OF m1(1)] digit_range [OF m(2)] m1(2)
  have "0 \<le> digitVal h * 60 + (10 * digitVal m1 + digitVal m2)"
       "digitVal h * 60 + (10 * digitVal m1 + digitVal m2) < 1440" by simp_all
  ultimately show ?thesis using c by simp
qed

lemma valid_time_long:
  assumes "valid_time [h1, h2, c, m1, m2]"
  shows "\<exists>m. timeToMinutes [h1, h2, c, m1, m2] = Some m \<and> 0 \<le> m \<and> m < 1440"
proof -
  from assms have c: "c = CHR '':''" and m: "m1 \<in> set ''012345''" "isDigit m2"
    and hh: "(h1 \<in> set ''01'' \<and> isDigit h2) \<or> (h1 = CHR ''2'' \<and> h2 \<in> set ''0123'')"
    by simp_all
  from tens_of_minutes [OF m(1)] have m1: "isDigit m1" "digitVal m1 < 6" by simp_all
  from hh have h: "isDigit h1 \<and> isDigit h2 \<and> 10 * digitVal h1 + digitVal h2 < 24"
  proof
    assume a: "h1 \<in> set ''01'' \<and> isDigit h2"
    with first_hour_digit [of h1] digit_range [of h2] show ?thesis by simp
  next
    assume a: "h1 = CHR ''2'' \<and> h2 \<in> set ''0123''"
    with second_hour_digit [of h2] show ?thesis by (simp add: isDigit_def digitVal_numerals)
  qed
  from timeToMinutes_hhmm [of h1 h2 m1 m2] h m1 m(2) have
    "timeToMinutes [h1, h2, CHR '':'', m1, m2] =
       Some ((10 * digitVal h1 + digitVal h2) * 60 + (10 * digitVal m1 + digitVal m2))"
    by simp
  moreover from h digit_range [of h1] digit_range [of h2] digit_range [OF m1(1)] digit_range [OF m(2)] m1(2)
  have "0 \<le> (10 * digitVal h1 + digitVal h2) * 60 + (10 * digitVal m1 + digitVal m2)"
       "(10 * digitVal h1 + digitVal h2) * 60 + (10 * digitVal m1 + digitVal m2) < 1440" by simp_all
  ultimately show ?thesis using c by simp
qed

lemma valid_time_parses:
  assumes "valid_time v"
  shows "\<exists>m. timeToMinutes v = Some m \<and> 0 \<le> m \<and> m < 1440"
  using assms valid_time_short valid_time_long
  by (cases v rule: valid_time.cases) simp_all

section \<open>The conflict check and the handlers on two-digit hours\<close>

text \<open>
  The conflict query reports a conflict exactly when some stored appointment of the staff
  member and date, neither cancelled nor a no-show and not the excluded one, satisfies the
  two string comparisons. When every time involved has a two-digit hour these are the
  comparisons of the minutes since midnight: the half-open overlap test.
\<close>

lemma checkConflict_strings:
  "checkConflict db staffId d startT endT excludeId \<noteq> None \<longleftrightarrow>
     (\<exists>a \<in> set db. staff a = staffId \<and> appointmentDate a = d
        \<and> status a \<noteq> Cancelled \<and> status a \<noteq> NoShow
        \<and> (truthy excludeId \<longrightarrow> excludeId \<noteq> Some (appt_id a))
        \<and> startTime a < endT \<and> endTime a > startT)"
  unfolding checkConflict_def find_None_iff
  by (cases excludeId) (auto simp: truthy_def)

lemma overlap_hhmm:
  assumes "hhmm bs" "hhmm be" "hhmm rs" "hhmm re"
  shows "\<exists>a b c d. timeToMinutes bs = Some a \<and> timeToMinutes be = Some b
           \<and> timeToMinutes rs = Some c \<and> timeToMinutes re = Some d
           \<and> (bs < re \<and> be > rs) = (a < d \<and> b > c)"
proof -
  from hhmm_order [OF assms(1,4)] obtain a d where
    1: "timeToMinutes bs = Some a" "timeToMinutes re = Some d" "(bs < re) = (a < d)" by blast
  from hhmm_order [OF assms(3,2)] obtain c b where
    2: "timeToMinutes rs = Some c" "timeToMinutes be = Some b" "(rs < be) = (c < b)" by blast
  from 1 2 show ?thesis by simp
qed

lemma checkConflict_hhmm:
  assumes "\<forall>a \<in> set db. hhmm (startTime a) \<and> hhmm (endTime a)" "hhmm startT" "hhmm endT"
  shows "checkConflict db staffId d startT endT excludeId \<noteq> None \<longleftrightarrow>
     (\<exists>a \<in> set db. staff a = staffId \<and> appointmentDate a = d
        \<and> status a \<noteq> Cancelled \<and> status a \<noteq> NoShow
        \<and> (truthy excludeId \<longrightarrow> excludeId \<noteq> Some (appt_id a))
        \<and> (\<exists>bs be rs re. timeToMinutes (startTime a) = Some bs
              \<and> timeToMinutes (endTime a) = Some be
              \<and> timeToMinutes startT = Some rs \<and> timeToMinutes endT = Some re
              \<and> bs < re \<and> be > rs))"
proof -
  have "(startTime a < endT \<and> endTime a > startT) =
        (\<exists>bs be rs re. timeToMinutes (startTime a) = Some bs
              \<and> timeToMinutes (endTime a) = Some be
              \<and> timeToMinutes startT = Some rs \<and> timeToMinutes endT = Some re
              \<and> bs < re \<and> be > rs)" if "a \<in> set db" for a
  proof -
    from that assms(1) have "hhmm (startTime a)" "hhmm (endTime a)" by auto
    from overlap_hhmm [OF this assms(2,3)] show ?thesis by auto
  qed
  then show ?thesis unfolding checkConflict_strings by blast
qed

lemma adjacent_no_conflict:
  assumes "\<forall>a \<in> set db. endTime a = startT \<or> startTime a = endT"
  shows "checkConflict db staffId d startT endT excludeId = None"
proof -
  have "\<not> (startTime a < endT \<and> endTime a > startT)" if "a \<in> set db" for a
    using that assms by auto
  then have "\<not> checkConflict db staffId d startT endT excludeId \<noteq> None"
    unfolding checkConflict_strings by blast
  then show ?thesis by simp
qed

lemma duration_tolerance_hhmm:
  assumes "hhmm startT" "hhmm endT"
  shows "\<exists>s e. timeToMinutes startT = Some s \<and> timeToMinutes endT = Some e
           \<and> durationOutOfTolerance (calculateDurationMinutes startT endT) nominal
               = (\<bar>(e - s) - nominal\<bar> > 15)"
proof -
  from hhmm_order [OF assms] obtain s e where
    "timeToMinutes startT = Some s" "timeToMinutes endT = Some e" by blast
  with assms show ?thesis
    by (simp add: calculateDurationMinutes_def clockOfDate_def durationOutOfTolerance_def)
qed

text \<open>
  The booking handler either fails and leaves the collection as it was, or answers 201 and
  appends the new document. A created booking passed every check; with two-digit hours it
  lies within the window of its weekday, in minutes, and a duration further than 15 minutes
  from the nominal one is rejected.
\<close>

lemma bookWith_cases:
  "(\<exists>c f. bookWith h stored b staffDoc serviceDoc = (Failure c f, stored))
   \<or> (\<exists>doc. bookWith h stored b staffDoc serviceDoc = (Success 201 doc, stored @ [doc]))"
  by (simp add: bookWith_def split: option.splits)

lemma router_post_cases:
  "(\<exists>c f. router_post h db u b = (Failure c f, appointments db))
   \<or> (\<exists>doc. router_post h db u b = (Success 201 doc, appointments db @ [doc]))"
proof (cases "Staff_findById db (staff b)"; cases "Service_findById db (service b)")
  fix staffDoc serviceDoc
  assume "Staff_findById db (staff b) = Doc staffDoc" "Service_findById db (service b) = Doc serviceDoc"
  with bookWith_cases [of h "appointments db" b staffDoc serviceDoc] show ?thesis
    by (auto simp: router_post_def Let_def)
qed (simp_all add: router_post_def Let_def)

lemma bookWith_created:
  assumes "bookWith h stored b staffDoc serviceDoc = (Success c doc, stored')"
  shows "\<exists>w. List.find (\<lambda>slot. dayOfWeek slot = weekday h (appointmentDate b))
                 (availability staffDoc) = Some w
           \<and> startTime w \<le> startTime b \<and> endTime b \<le> endTime w
           \<and> checkConflict stored (staff b) (appointmentDate b) (startTime b) (endTime b) None = None
           \<and> \<not> durationOutOfTolerance (calculateDurationMinutes (startTime b) (endTime b))
                  (durationMinutes serviceDoc)"
  using assms by (auto simp: bookWith_def split: if_splits option.splits)

lemma router_post_created:
  assumes "router_post h db u b = (Success c doc, stored')"
  shows "\<exists>staffDoc serviceDoc w.
           Staff_findById db (staff b) = Doc staffDoc
           \<and> Service_findById db (service b) = Doc serviceDoc
           \<and> List.find (\<lambda>slot. dayOfWeek slot = weekday h (appointmentDate b))
                 (availability staffDoc) = Some w
           \<and> valid_time (startTime b) \<and> valid_time (endTime b) \<and> startTime b < endTime b
           \<and> startTime w \<le> startTime b \<and> endTime b \<le> endTime w
           \<and> checkConflict (appointments db) (staff b) (appointmentDate b)
                (startTime b) (endTime b) None = None
           \<and> \<not> durationOutOfTolerance (calculateDurationMinutes (startTime b) (endTime b))
                  (durationMinutes serviceDoc)"
proof -
  from assms obtain staffDoc serviceDoc where
    docs: "Staff_findById db (staff b) = Doc staffDoc" "Service_findById db (service b) = Doc serviceDoc"
    and ok: "appointmentValidation b"
    and bw: "bookWith h (appointments db) b staffDoc serviceDoc = (Success c doc, stored')"
    by (auto simp: router_post_def Let_def split: if_splits lookup.splits)
  from ok have "valid_time (startTime b)" "valid_time (endTime b)" "startTime b < endTime b"
    by (auto simp: appointmentValidation_def)
  with docs bookWith_created [OF bw] show ?thesis by blast
qed

lemma router_post_rejects_duration_hhmm:
  assumes "hhmm (startTime b)" "hhmm (endTime b)"
    and "timeToMinutes (startTime b) = Some s" "timeToMinutes (endTime b) = Some e"
    and "Service_findById db (service b) = Doc serviceDoc"
    and "\<bar>(e - s) - durationMinutes serviceDoc\<bar> > 15"
  shows "\<exists>c f. router_post h db u b = (Failure c f, appointments db)"
proof (rule ccontr)
  assume "\<not> ?thesis"
  with router_post_cases [of h db u b] obtain doc where
    "router_post h db u b = (Success 201 doc, appointments db @ [doc])" by blast
  from router_post_created [OF this] assms(5) have
    "\<not> durationOutOfTolerance (calculateDurationMinutes (startTime b) (endTime b))
          (durationMinutes serviceDoc)" by auto
  moreover from duration_tolerance_hhmm [OF assms(1,2), of "durationMinutes serviceDoc"] assms(3,4,6)
  have "durationOutOfTolerance (calculateDurationMinutes (startTime b) (endTime b))
          (durationMinutes serviceDoc)" by simp
  ultimately show False by simp
qed

lemma router_post_within_window_hhmm:
  assumes "router_post h db u b = (Success c doc, stored')"
    and "hhmm (startTime b)" "hhmm (endTime b)"
    and "Staff_findById db (staff b) = Doc staffDoc"
    and "\<forall>w \<in> set (availability staffDoc). hhmm (startTime w) \<and> hhmm (endTime w)"
  shows "\<exists>w \<in> set (availability staffDoc). \<exists>ws we s e.
           dayOfWeek w = weekday h (appointmentDate b)
           \<and> timeToMinutes (startTime w) = Some ws \<and> timeToMinutes (endTime w) = Some we
           \<and> timeToMinutes (startTime b) = Some s \<and> timeToMinutes (endTime b) = Some e
           \<and> ws \<le> s \<and> e \<le> we"
proof -
  from router_post_created [OF assms(1)] assms(4) obtain w where
    f: "List.find (\<lambda>slot. dayOfWeek slot = weekday h (appointmentDate b))
          (availability staffDoc) = Some w"
    and le: "startTime w \<le> startTime b" "endTime b \<le> endTime w" by auto
  from f have w: "w \<in> set (availability staffDoc)" "dayOfWeek w = weekday h (appointmentDate b)"
    by (auto simp: find_Some_iff)
  with assms(5) have hw: "hhmm (startTime w)" "hhmm (endTime w)" by auto
  from hhmm_order [OF assms(2) hw(1)] obtain s ws where
    1: "timeToMinutes (startTime b) = Some s" "timeToMinutes (startTime w) = Some ws"
       "(startTime b < startTime w) = (s < ws)" by blast
  from hhmm_order [OF hw(2) assms(3)] obtain we e where
    2: "timeToMinutes (endTime w) = Some we" "timeToMinutes (endTime b) = Some e"
       "(endTime w < endTime b) = (we < e)" by blast
  from le 1(3) 2(3) have "ws \<le> s" "e \<le> we" by (simp_all add: not_less [symmetric])
  with w 1 2 show ?thesis by blast
qed

lemma validateAvailability_None:
  "validateAvailability ws = None \<Longrightarrow>
     \<forall>w \<in> set ws. dayOfWeek w \<in> set daysOfWeek \<and> valid_time (startTime w)
        \<and> valid_time (endTime w) \<and> startTime w < endTime w"
  by (induction ws) (auto split: if_splits)

lemma router_put_availability_saved:
  assumes "router_put_availability db u paramId body = Success c saved"
  shows "\<forall>w \<in> set (availability saved). valid_time (startTime w) \<and> valid_time (endTime w)
           \<and> startTime w < endTime w"
proof -
  from assms obtain ws staffDoc where "body = Some ws" "validateAvailability ws = None"
    "saved = staffDoc\<lparr>availability := ws\<rparr>"
    by (auto simp: router_put_availability_def split: lookup.splits if_splits option.splits)
  with validateAvailability_None [of ws] show ?thesis by simp
qed

lemma router_put_availability_saved_hhmm:
  assumes "router_put_availability db u paramId body = Success c saved"
    and "w \<in> set (availability saved)" "hhmm (startTime w)" "hhmm (endTime w)"
  shows "\<exists>s e. timeToMinutes (startTime w) = Some s \<and> timeToMinutes (endTime w) = Some e \<and> s < e"
proof -
  from router_put_availability_saved [OF assms(1)] assms(2) have "startTime w < endTime w" by blast
  with hhmm_order [OF assms(3,4)] show ?thesis by auto
qed

section \<open>Properties of slot generation\<close>

lemma hasConflict_iff:
  "hasConflict c d appts \<longleftrightarrow>
     (\<exists>a \<in> set appts. \<exists>s e. timeToMinutes (startTime a) = Some s \<and>
         timeToMinutes (endTime a) = Some e \<and> c < e \<and> c + d > s)"
  unfolding hasConflict_def list_ex_iff
  by (rule bex_cong [OF refl]) (simp split: option.splits)

lemma calculateAvailableSlots_shape:
  assumes "timeToMinutes startT = Some ws" "timeToMinutes endT = Some we"
  shows "\<exists>cs. calculateAvailableSlots startT endT d appts =
            map (\<lambda>c. \<lparr>startTime = minutesToTime c, endTime = minutesToTime (c + d)\<rparr>) cs
          \<and> sorted_wrt (<) cs
          \<and> set cs = {c. (\<exists>k::nat. c = ws + 30 * int k) \<and> c + d \<le> we \<and> \<not> hasConflict c d appts}"
  using slotLoop_shape [of ws d we appts "[]"] assms
  by (simp add: calculateAvailableSlots_def)

lemma calculateAvailableSlots_member:
  assumes "sl \<in> set (calculateAvailableSlots startT endT d appts)"
  shows "\<exists>ws we c. timeToMinutes startT = Some ws \<and> timeToMinutes endT = Some we
           \<and> sl = \<lparr>startTime = minutesToTime c, endTime = minutesToTime (c + d)\<rparr>
           \<and> ws \<le> c \<and> c + d \<le> we \<and> \<not> hasConflict c d appts"
proof -
  from assms have "\<exists>ws we. timeToMinutes startT = Some ws \<and> timeToMinutes endT = Some we"
    by (cases "timeToMinutes startT"; cases "timeToMinutes endT")
       (simp_all add: calculateAvailableSlots_def)
  then obtain ws we where p: "timeToMinutes startT = Some ws" "timeToMinutes endT = Some we"
    by blast
  from calculateAvailableSlots_shape [OF p, of d appts] obtain cs where
    eq: "calculateAvailableSlots startT endT d appts =
            map (\<lambda>c. \<lparr>startTime = minutesToTime c, endTime = minutesToTime (c + d)\<rparr>) cs"
    and st: "set cs = {c. (\<exists>k::nat. c = ws + 30 * int k) \<and> c + d \<le> we \<and> \<not> hasConflict c d appts}"
    by blast
  from assms eq obtain c where c: "c \<in> set cs"
    "sl = \<lparr>startTime = minutesToTime c, endTime = minutesToTime (c + d)\<rparr>" by auto
  from c(1) st have "ws \<le> c" "c + d \<le> we" "\<not> hasConflict c d appts" by auto
  with p c(2) show ?thesis by blast
qed

lemma small_window:
  "calculateAvailableSlots ''09:00'' ''10:30'' 30
     [b\<lparr>startTime := ''10:00'', endTime := ''10:45''\<rparr>] =
   [\<lparr>startTime = ''09:00'', endTime = ''09:30''\<rparr>,
    \<lparr>startTime = ''09:30'', endTime = ''10:00''\<rparr>]"
  by (simp add: time_eval)

text \<open>
  C2. Let the window bounds parse to \<open>windowStart\<close> and \<open>windowEnd\<close> minutes since
  midnight. The slots returned are the slots \<open>[c, c + D)\<close>, written back as strings, of a
  strictly increasing list \<open>cs\<close> of start minutes, and \<open>c\<close> is in that list exactly
  when it is a candidate \<open>windowStart + 30 * k\<close> (whatever \<open>D\<close> is), \<open>c + D\<close> does not
  exceed \<open>windowEnd\<close>, and no existing booking \<open>[s, e)\<close> has \<open>c < e\<close> and \<open>c + D > s\<close>.
  The strings are faithful: the start of each slot parses back to its \<open>c\<close> and, for a
  duration that is not negative, its end parses back to \<open>c + D\<close>.
\<close>

theorem slots_are_free_candidates:
  assumes "timeToMinutes startT = Some windowStart" "timeToMinutes endT = Some windowEnd"
  shows "\<exists>cs. calculateAvailableSlots startT endT D appts =
            map (\<lambda>c. \<lparr>startTime = minutesToTime c, endTime = minutesToTime (c + D)\<rparr>) cs
          \<and> sorted_wrt (<) cs
          \<and> set cs = {c. (\<exists>k::nat. c = windowStart + 30 * int k) \<and> c + D \<le> windowEnd \<and>
                \<not> (\<exists>a \<in> set appts. \<exists>s e. timeToMinutes (startTime a) = Some s \<and>
                      timeToMinutes (endTime a) = Some e \<and> c < e \<and> c + D > s)}
          \<and> map (\<lambda>sl. timeToMinutes (startTime sl)) (calculateAvailableSlots startT endT D appts)
              = map Some cs
          \<and> (0 \<le> D \<longrightarrow>
               map (\<lambda>sl. timeToMinutes (endTime sl)) (calculateAvailableSlots startT endT D appts)
                 = map (\<lambda>c. Some (c + D)) cs)"
proof -
  from calculateAvailableSlots_shape [OF assms, of D appts] obtain cs where
    eq: "calculateAvailableSlots startT endT D appts =
            map (\<lambda>c. \<lparr>startTime = minutesToTime c, endTime = minutesToTime (c + D)\<rparr>) cs"
    and srt: "sorted_wrt (<) cs"
    and st: "set cs = {c. (\<exists>k::nat. c = windowStart + 30 * int k) \<and> c + D \<le> windowEnd
                \<and> \<not> hasConflict c D appts}"
    by blast
  have nonneg: "0 \<le> c" if "c \<in> set cs" for c
  proof -
    from that st obtain k :: nat where "c = windowStart + 30 * int k" by blast
    with timeToMinutes_nonneg [OF assms(1)] show ?thesis by simp
  qed
  have starts: "map (\<lambda>sl. timeToMinutes (startTime sl)) (calculateAvailableSlots startT endT D appts)
              = map Some cs"
    unfolding eq by (simp add: nonneg timeToMinutes_minutesToTime)
  have ends: "map (\<lambda>sl. timeToMinutes (endTime sl)) (calculateAvailableSlots startT endT D appts)
                 = map (\<lambda>c. Some (c + D)) cs" if "0 \<le> D"
  proof -
    have "timeToMinutes (minutesToTime (c + D)) = Some (c + D)" if "c \<in> set cs" for c
      using nonneg [OF that] \<open>0 \<le> D\<close> by (simp add: timeToMinutes_minutesToTime)
    then show ?thesis unfolding eq by simp
  qed
  from eq srt st starts ends show ?thesis
    unfolding hasConflict_iff by blast
qed

text \<open>The statement of C2 at the window 09:00--17:00 with one booking and \<open>D = 45\<close>.\<close>

theorem slots_are_free_candidates_witness:
  "timeToMinutes ''09:00'' = Some 540 \<and> timeToMinutes ''17:00'' = Some 1020 \<and>
   (\<exists>cs. calculateAvailableSlots ''09:00'' ''17:00'' 45
            [\<lparr>startTime = ''10:00'', endTime = ''10:45'', patient = p1, staff = s1,
              service = v1, appointmentDate = 0, appt_id = a0, status = Scheduled\<rparr>] =
            map (\<lambda>c. \<lparr>startTime = minutesToTime c, endTime = minutesToTime (c + 45)\<rparr>) cs
          \<and> sorted_wrt (<) cs
          \<and> set cs = {c. (\<exists>k::nat. c = 540 + 30 * int k) \<and> c + 45 \<le> 1020 \<and>
                \<not> (\<exists>a \<in> set [\<lparr>startTime = ''10:00'', endTime = ''10:45'', patient = p1,
                       staff = s1, service = v1, appointmentDate = 0, appt_id = a0,
                       status = Scheduled\<rparr>].
                     \<exists>s e. timeToMinutes (startTime a) = Some s \<and>
                      timeToMinutes (endTime a) = Some e \<and> c < e \<and> c + 45 > s)}
          \<and> map (\<lambda>sl. timeToMinutes (startTime sl))
               (calculateAvailableSlots ''09:00'' ''17:00'' 45
                 [\<lparr>startTime = ''10:00'', endTime = ''10:45'', patient = p1, staff = s1,
                   service = v1, appointmentDate = 0, appt_id = a0, status = Scheduled\<rparr>])
              = map Some cs
          \<and> map (\<lambda>sl. timeToMinutes (endTime sl))
               (calculateAvailableSlots ''09:00'' ''17:00'' 45
                 [\<lparr>startTime = ''10:00'', endTime = ''10:45'', patient = p1, staff = s1,
                   service = v1, appointmentDate = 0, appt_id = a0, status = Scheduled\<rparr>])
              = map (\<lambda>c. Some (c + 45)) cs)"
proof -
  have a: "timeToMinutes ''09:00'' = Some 540" and b: "timeToMinutes ''17:00'' = Some 1020"
    by (simp_all add: time_eval)
  let ?appts = "[\<lparr>startTime = ''10:00'', endTime = ''10:45'', patient = p1, staff = s1,
              service = v1, appointmentDate = 0, appt_id = a0, status = Scheduled\<rparr>]"
  have d: "(0::int) \<le> 45" by simp
  from slots_are_free_candidates [OF a b, of 45 ?appts] d a b show ?thesis by blast
qed

section \<open>The stated scenario of slot generation\<close>

text \<open>
  C3, as amended. For the window 09:00--17:00, one booking 10:00--10:45 (whatever its
  other fields) and a duration of 30 minutes, the generated slots are exactly those
  starting at 09:00 and 09:30 and then at 11:00, 11:30, ..., 16:30. The candidates are
  09:00 plus multiples of 30 minutes, so 10:15 and 10:45 are never candidates, and the
  candidates 10:00 and 10:30 overlap the booking.
\<close>

theorem scenario_slots:
  "calculateAvailableSlots ''09:00'' ''17:00'' 30
     [b\<lparr>startTime := ''10:00'', endTime := ''10:45''\<rparr>] =
   [\<lparr>startTime = ''09:00'', endTime = ''09:30''\<rparr>,
    \<lparr>startTime = ''09:30'', endTime = ''10:00''\<rparr>,
    \<lparr>startTime = ''11:00'', endTime = ''11:30''\<rparr>,
    \<lparr>startTime = ''11:30'', endTime = ''12:00''\<rparr>,
    \<lparr>startTime = ''12:00'', endTime = ''12:30''\<rparr>,
    \<lparr>startTime = ''12:30'', endTime = ''13:00''\<rparr>,
    \<lparr>startTime = ''13:00'', endTime = ''13:30''\<rparr>,
    \<lparr>startTime = ''13:30'', endTime = ''14:00''\<rparr>,
    \<lparr>startTime = ''14:00'', endTime = ''14:30''\<rparr>,
    \<lparr>startTime = ''14:30'', endTime = ''15:00''\<rparr>,
    \<lparr>startTime = ''15:00'', endTime = ''15:30''\<rparr>,
    \<lparr>startTime = ''15:30'', endTime = ''16:00''\<rparr>,
    \<lparr>startTime = ''16:00'', endTime = ''16:30''\<rparr>,
    \<lparr>startTime = ''16:30'', endTime = ''17:00''\<rparr>]"
  by (simp add: time_eval)

text \<open>
  C3, as stated, fails: the scenario's slot list has no slot starting at 10:45.
\<close>

theorem scenario_no_1045:
  "''10:45'' \<notin> set (map startTime
     (calculateAvailableSlots ''09:00'' ''17:00'' 30
        [\<lparr>startTime = ''10:00'', endTime = ''10:45'', patient = p1, staff = s1,
          service = v1, appointmentDate = 0, appt_id = a0, status = Scheduled\<rparr>]))"
  by (simp add: time_eval)

text \<open>
  C4. For a duration that is not negative, every returned slot parses back to minutes
  \<open>[s, e)\<close>, and for every existing booking of the list whose times parse to
  \<open>[bs, be)\<close> the half-open overlap test \<open>s < be \<and> e > bs\<close> is false.
\<close>

theorem slots_avoid_bookings:
  assumes "0 \<le> D"
    and "sl \<in> set (calculateAvailableSlots startT endT D appts)"
    and "a \<in> set appts"
    and "timeToMinutes (startTime a) = Some bs" "timeToMinutes (endTime a) = Some be"
  shows "\<exists>s e. timeToMinutes (startTime sl) = Some s \<and> timeToMinutes (endTime sl) = Some e
           \<and> \<not> (s < be \<and> e > bs)"
proof -
  from calculateAvailableSlots_member [OF assms(2)] obtain ws we c where
    p: "timeToMinutes startT = Some ws"
    and sl: "sl = \<lparr>startTime = minutesToTime c, endTime = minutesToTime (c + D)\<rparr>"
    and c: "ws \<le> c" "\<not> hasConflict c D appts" by blast
  from timeToMinutes_nonneg [OF p] c(1) assms(1) have "0 \<le> c" "0 \<le> c + D" by simp_all
  then have "timeToMinutes (startTime sl) = Some c" "timeToMinutes (endTime sl) = Some (c + D)"
    by (simp_all add: sl timeToMinutes_minutesToTime)
  moreover from c(2) assms(3-5) have "\<not> (c < be \<and> c + D > bs)"
    unfolding hasConflict_iff by blast
  ultimately show ?thesis by blast
qed

text \<open>C4 at the window 09:00--10:30, the slot 09:30--10:00 and the booking 10:00--10:45.\<close>

theorem slots_avoid_bookings_witness:
  "(0::int) \<le> 30 \<and>
   \<lparr>startTime = ''09:30'', endTime = ''10:00''\<rparr> \<in> set (calculateAvailableSlots ''09:00'' ''10:30'' 30
      [\<lparr>startTime = ''10:00'', endTime = ''10:45'', patient = p1, staff = s1,
        service = v1, appointmentDate = 0, appt_id = a0, status = Scheduled\<rparr>]) \<and>
   timeToMinutes ''10:00'' = Some 600 \<and> timeToMinutes ''10:45'' = Some 645 \<and>
   (\<exists>s e. timeToMinutes ''09:30'' = Some s \<and> timeToMinutes ''10:00'' = Some e
           \<and> \<not> (s < 645 \<and> e > 600))"
proof -
  let ?b = "\<lparr>startTime = ''10:00'', endTime = ''10:45'', patient = p1, staff = s1,
        service = v1, appointmentDate = 0, appt_id = a0, status = Scheduled\<rparr>"
  let ?sl = "\<lparr>startTime = ''09:30'', endTime = ''10:00''\<rparr>"
  have m: "?sl \<in> set (calculateAvailableSlots ''09:00'' ''10:30'' 30 [?b])"
    using small_window [of ?b] by simp
  have s: "timeToMinutes (startTime ?b) = Some 600" and e: "timeToMinutes (endTime ?b) = Some 645"
    by (simp_all add: time_eval)
  from slots_avoid_bookings [OF _ m _ s e] have
    "\<exists>s e. timeToMinutes (startTime ?sl) = Some s \<and> timeToMinutes (endTime ?sl) = Some e
           \<and> \<not> (s < 645 \<and> e > 600)" by simp
  with m s e show ?thesis by simp
qed

text \<open>
  C5. For a duration that is not negative, the end time of every returned slot, in minutes,
  is at most the end of the availability window, in minutes.
\<close>

theorem slots_end_within_window:
  assumes "0 \<le> D" and "sl \<in> set (calculateAvailableSlots startT endT D appts)"
  shows "\<exists>e w. timeToMinutes (endTime sl) = Some e \<and> timeToMinutes endT = Some w \<and> e \<le> w"
proof -
  from calculateAvailableSlots_member [OF assms(2)] obtain ws we c where
    p: "timeToMinutes startT = Some ws" "timeToMinutes endT = Some we"
    and sl: "sl = \<lparr>startTime = minutesToTime c, endTime = minutesToTime (c + D)\<rparr>"
    and c: "ws \<le> c" "c + D \<le> we" by blast
  from timeToMinutes_nonneg [OF p(1)] c(1) assms(1) have "0 \<le> c + D" by simp
  then have "timeToMinutes (endTime sl) = Some (c + D)"
    by (simp add: sl timeToMinutes_minutesToTime)
  with p(2) c(2) show ?thesis by blast
qed

text \<open>C5 at the window 09:00--10:30 and the slot 09:30--10:00.\<close>

theorem slots_end_within_window_witness:
  "(0::int) \<le> 30 \<and>
   \<lparr>startTime = ''09:30'', endTime = ''10:00''\<rparr> \<in> set (calculateAvailableSlots ''09:00'' ''10:30'' 30 []) \<and>
   (\<exists>e w. timeToMinutes ''10:00'' = Some e \<and> timeToMinutes ''10:30'' = Some w \<and> e \<le> w)"
proof -
  let ?sl = "\<lparr>startTime = ''09:30'', endTime = ''10:00''\<rparr>"
  have m: "?sl \<in> set (calculateAvailableSlots ''09:00'' ''10:30'' 30 [])"
    by (simp add: time_eval)
  from slots_end_within_window [OF _ m] have
    "\<exists>e w. timeToMinutes (endTime ?sl) = Some e \<and> timeToMinutes ''10:30'' = Some w \<and> e \<le> w"
    by simp
  with m show ?thesis by simp
qed

section \<open>Times with a one-digit hour\<close>

text \<open>
  The validators accept an hour of one digit (\<^verbatim>\<open>9:30\<close>), while the conflict query,
  the working-hours check and the availability check compare the strings, and the duration
  is computed through \<^verbatim>\<open>new Date\<close>. The four evaluations below are on requests that
  pass every validator.
\<close>

text \<open>
  C1 on a failing input. A booking 09:00--10:00 is stored for the staff member and the
  date; the conflict check for 9:30--9:45 (same staff, same date, nothing excluded) finds
  nothing, although in minutes the two intervals overlap: 540 < 585 and 600 > 570. The
  query compares \<^verbatim>\<open>'10:00' > '9:30'\<close> as strings, which is false.
\<close>

theorem checkConflict_misses_overlap:
  "checkConflict
     [\<lparr>startTime = ''09:00'', endTime = ''10:00'', patient = p1, staff = s1,
       service = v1, appointmentDate = 1767571200000, appt_id = a0,
       status = Scheduled\<rparr>]
     s1 1767571200000 ''9:30'' ''9:45'' None = None
   \<and> timeToMinutes ''09:00'' = Some 540 \<and> timeToMinutes ''10:00'' = Some 600
   \<and> timeToMinutes ''9:30'' = Some 570 \<and> timeToMinutes ''9:45'' = Some 585"
  by (simp add: checkConflict_def time_eval s1_def)

text \<open>
  C7 on a failing input. The service lasts 60 minutes; the request 0:30--0:45 lasts 15.
  The two strings are not in the date-time format, the computed duration is NaN, the
  comparison with 15 is false, and the appointment is created.
\<close>

theorem duration_check_skipped:
  "router_post (utcHost 1762128000000)
     (clinic [\<lparr>startTime = ''09:00'', endTime = ''17:00'', dayOfWeek = ''Monday''\<rparr>] 60 [])
     \<lparr>role = ''patient'', uid = p1\<rparr>
     \<lparr>startTime = ''0:30'', endTime = ''0:45'', patient = p1, staff = s1,
       service = v1, appointmentDate = 1767571200000, otherFieldsValid = True\<rparr>
   = (Success 201
        \<lparr>startTime = ''0:30'', endTime = ''0:45'', patient = p1, staff = s1,
          service = v1, appointmentDate = 1767571200000, appt_id = a0,
          status = Scheduled\<rparr>,
      [\<lparr>startTime = ''0:30'', endTime = ''0:45'', patient = p1, staff = s1,
         service = v1, appointmentDate = 1767571200000, appt_id = a0,
         status = Scheduled\<rparr>])
   \<and> calculateDurationMinutes ''0:30'' ''0:45'' = None
   \<and> timeToMinutes ''0:30'' = Some 30 \<and> timeToMinutes ''0:45'' = Some 45"
  by (simp add: handler_eval time_eval)

text \<open>
  C8 on a failing input. The window 10:00--9:00 passes the loop of the handler, because
  \<^verbatim>\<open>'10:00' >= '9:00'\<close> is false for strings, and is saved: a stored window whose
  start, 600 minutes, is after its end, 540 minutes.
\<close>

theorem availability_accepts_inverted_window:
  "router_put_availability (clinic [] 60 []) \<lparr>role = ''admin'', uid = ''64f1e0000000000000000001''\<rparr> s1
     (Some [\<lparr>startTime = ''10:00'', endTime = ''9:00'', dayOfWeek = ''Monday''\<rparr>])
   = Success 200
       \<lparr>isActive = True, specialty = Some ''Physiotherapy'',
         availability = [\<lparr>startTime = ''10:00'', endTime = ''9:00'', dayOfWeek = ''Monday''\<rparr>]\<rparr>
   \<and> timeToMinutes ''10:00'' = Some 600 \<and> timeToMinutes ''9:00'' = Some 540"
  by (simp add: handler_eval time_eval)

text \<open>
  C10 on a failing input. The staff member's Monday window is 09:00--9:30 (accepted by the
  availability handler, since \<^verbatim>\<open>'09:00' < '9:30'\<close>). The request 09:00--10:00 for a
  60-minute service is created, because \<^verbatim>\<open>'10:00' > '9:30'\<close> is false for strings,
  although 10:00 (600 minutes) is after the end of the window (570 minutes).
\<close>

theorem booking_outside_window:
  "router_post (utcHost 1762128000000)
     (clinic [\<lparr>startTime = ''09:00'', endTime = ''9:30'', dayOfWeek = ''Monday''\<rparr>] 60 [])
     \<lparr>role = ''patient'', uid = p1\<rparr>
     \<lparr>startTime = ''09:00'', endTime = ''10:00'', patient = p1, staff = s1,
       service = v1, appointmentDate = 1767571200000, otherFieldsValid = True\<rparr>
   = (Success 201
        \<lparr>startTime = ''09:00'', endTime = ''10:00'', patient = p1, staff = s1,
          service = v1, appointmentDate = 1767571200000, appt_id = a0,
          status = Scheduled\<rparr>,
      [\<lparr>startTime = ''09:00'', endTime = ''10:00'', patient = p1, staff = s1,
         service = v1, appointmentDate = 1767571200000, appt_id = a0,
         status = Scheduled\<rparr>])
   \<and> timeToMinutes ''10:00'' = Some 600 \<and> timeToMinutes ''9:30'' = Some 570"
  by (simp add: handler_eval time_eval)

section \<open>No double booking\<close>

text \<open>
  The invariant \<open>noDouble\<close> under the writes of the storage layer. A write is rejected
  exactly when it would duplicate the key among the indexed documents, so every write that
  is taken keeps the invariant, together with the uniqueness of the \<^verbatim>\<open>_id\<close>.
\<close>

lemma duplicateKey_iff:
  "duplicateKey stored doc \<longleftrightarrow>
     indexed doc \<and> (\<exists>b \<in> set stored. appt_id b \<noteq> appt_id doc \<and> indexed b \<and> slotKey b = slotKey doc)"
  by (simp add: duplicateKey_def list_ex_iff)

lemma noDouble_Cons:
  "noDouble (x # xs) \<longleftrightarrow>
     noDouble xs \<and> (indexed x \<longrightarrow> (\<forall>b \<in> set xs. indexed b \<longrightarrow> slotKey b \<noteq> slotKey x))"
  by (force simp: noDouble_def image_iff)

lemma noDouble_snoc:
  "noDouble (xs @ [x]) \<longleftrightarrow>
     noDouble xs \<and> (indexed x \<longrightarrow> (\<forall>b \<in> set xs. indexed b \<longrightarrow> slotKey b \<noteq> slotKey x))"
  by (force simp: noDouble_def image_iff)

lemma replace_ids:
  "map appt_id (map (\<lambda>b. if appt_id b = appt_id doc then doc else b) stored) = map appt_id stored"
  by (induction stored) simp_all

lemma replace_absent:
  "\<forall>b \<in> set stored. appt_id b \<noteq> appt_id doc \<Longrightarrow>
   map (\<lambda>b. if appt_id b = appt_id doc then doc else b) stored = stored"
  by (induction stored) simp_all

lemma replace_set:
  "set (map (\<lambda>b. if appt_id b = appt_id doc then doc else b) stored) \<subseteq> insert doc (set stored)"
  by auto

lemma replace_noDouble:
  assumes "distinct (map appt_id stored)" and "noDouble stored" and "\<not> duplicateKey stored doc"
  shows "noDouble (map (\<lambda>b. if appt_id b = appt_id doc then doc else b) stored)"
  using assms
proof (induction stored)
  case Nil
  then show ?case by (simp add: noDouble_def)
next
  case (Cons x xs)
  let ?f = "\<lambda>b. if appt_id b = appt_id doc then doc else b"
  from Cons.prems have ids: "distinct (map appt_id xs)" and fresh: "appt_id x \<notin> appt_id ` set xs"
    by simp_all
  from Cons.prems(2) have inv: "noDouble xs"
    and other: "indexed x \<Longrightarrow> b \<in> set xs \<Longrightarrow> indexed b \<Longrightarrow> slotKey b \<noteq> slotKey x" for b
    by (simp_all add: noDouble_Cons)
  from Cons.prems(3) have nodup: "\<not> duplicateKey xs doc"
    by (auto simp: duplicateKey_iff)
  show ?case
  proof (cases "appt_id x = appt_id doc")
    case True
    with fresh have "\<forall>b \<in> set xs. appt_id b \<noteq> appt_id doc" by (force simp: image_iff)
    then have same: "map ?f xs = xs" and ne: "\<And>b. b \<in> set xs \<Longrightarrow> appt_id b \<noteq> appt_id doc"
      by (simp_all add: replace_absent)
    have "slotKey b \<noteq> slotKey doc" if "indexed doc" "b \<in> set xs" "indexed b" for b
      using that ne [OF that(2)] Cons.prems(3) by (auto simp: duplicateKey_iff)
    with inv True same show ?thesis by (simp add: noDouble_Cons)
  next
    case False
    have "slotKey b \<noteq> slotKey x" if "indexed x" "b \<in> set (map ?f xs)" "indexed b" for b
    proof (cases "b = doc")
      case True
      with that False Cons.prems(3) show ?thesis by (auto simp: duplicateKey_iff)
    next
      case neq: False
      with that(2) have "b \<in> set xs" using replace_set [of doc xs] by auto
      with that other show ?thesis by blast
    qed
    with False Cons.IH [OF ids inv nodup] show ?thesis by (simp add: noDouble_Cons)
  qed
qed

lemma replaceOne_keeps:
  assumes "distinct (map appt_id stored)" and "noDouble stored"
    and "replaceOne ok stored doc = Some stored'"
  shows "noDouble stored' \<and> distinct (map appt_id stored')"
proof -
  from assms(3) have ok: "\<not> duplicateKey stored doc"
    and eq: "stored' = map (\<lambda>b. if appt_id b = appt_id doc then doc else b) stored"
    by (auto simp: replaceOne_def split: if_splits)
  from replace_noDouble [OF assms(1,2) ok] assms(1) show ?thesis
    unfolding eq replace_ids by simp
qed

lemma insertOne_keeps:
  assumes "distinct (map appt_id stored)" and "noDouble stored"
    and "insertOne ok stored doc = Some stored'"
  shows "noDouble stored' \<and> distinct (map appt_id stored')"
proof -
  from assms(3) have ok: "\<not> duplicateKey stored doc"
    and fresh: "\<And>b. b \<in> set stored \<Longrightarrow> appt_id b \<noteq> appt_id doc"
    and eq: "stored' = stored @ [doc]"
    by (auto simp: insertOne_def list_all_iff split: if_splits)
  have "slotKey b \<noteq> slotKey doc" if "indexed doc" "b \<in> set stored" "indexed b" for b
    using that fresh [OF that(2)] ok by (auto simp: duplicateKey_iff)
  moreover have "appt_id doc \<notin> appt_id ` set stored"
    using fresh by (force simp: image_iff)
  ultimately show ?thesis using assms(1,2) unfolding eq by (simp add: noDouble_snoc)
qed

lemma saveAfter_keeps:
  assumes "distinct (map appt_id stored)" and "noDouble stored"
  shows "noDouble (saveAfter ok stored i method) \<and> distinct (map appt_id (saveAfter ok stored i method))"
  using assms replaceOne_keeps [OF assms]
  by (auto simp: saveAfter_def split: option.splits)

lemma applyOp_keeps:
  assumes "distinct (map appt_id stored)" and "noDouble stored"
  shows "noDouble (applyOp ok stored op) \<and> distinct (map appt_id (applyOp ok stored op))"
proof (cases op)
  case (Create doc)
  with assms insertOne_keeps [OF assms] show ?thesis by (auto split: option.splits)
next
  case (FindByIdAndUpdate doc)
  with assms replaceOne_keeps [OF assms] show ?thesis by (auto split: option.splits)
qed (simp_all add: saveAfter_keeps [OF assms])

lemma insertOne_exact:
  assumes "noDouble stored" and "\<forall>b \<in> set stored. appt_id b \<noteq> appt_id doc"
  shows "noDouble (stored @ [doc]) \<longleftrightarrow> \<not> duplicateKey stored doc"
  using assms by (auto simp: noDouble_snoc duplicateKey_iff)

lemma insertOne_accepts:
  assumes "\<not> duplicateKey stored doc" and "\<forall>b \<in> set stored. appt_id b \<noteq> appt_id doc"
  shows "insertOne True stored doc = Some (stored @ [doc])"
  using assms by (simp add: insertOne_def list_all_iff)

text \<open>
  C6. With the storage layer of the spec (the unique index is enforced on every insert and
  update): if the stored appointments have pairwise different \<^verbatim>\<open>_id\<close>s and no two of
  those that are neither cancelled nor a no-show share the tuple (staff, appointmentDate,
  startTime, endTime), then the same holds after every operation --- a create, an update,
  a confirmation, a cancellation, a rescheduling, a completion --- whether the engine takes
  the write or not; and a create or an update whose document would duplicate such a tuple
  is rejected and leaves the collection as it was.
\<close>

theorem no_double_booking_preserved:
  assumes "distinct (map appt_id stored)" and "noDouble stored"
  shows "noDouble (applyOp ok stored op)
       \<and> distinct (map appt_id (applyOp ok stored op))
       \<and> (duplicateKey stored doc \<longrightarrow>
            applyOp ok stored (Create doc) = stored
          \<and> applyOp ok stored (FindByIdAndUpdate doc) = stored)"
proof -
  have "applyOp ok stored (Create doc) = stored \<and> applyOp ok stored (FindByIdAndUpdate doc) = stored"
    if "duplicateKey stored doc"
    using that by (simp add: insertOne_def replaceOne_def)
  with applyOp_keeps [OF assms] show ?thesis by blast
qed

text \<open>
  C6 at a collection that holds the Monday appointment 09:00--10:00: a second, confirmed
  appointment with the same tuple is not inserted.
\<close>

theorem no_double_booking_preserved_witness:
  "distinct (map appt_id [monday9 a0 Scheduled])
   \<and> noDouble [monday9 a0 Scheduled]
   \<and> duplicateKey [monday9 a0 Scheduled] (monday9 a1 Confirmed)
   \<and> applyOp True [monday9 a0 Scheduled] (Create (monday9 a1 Confirmed)) = [monday9 a0 Scheduled]
   \<and> noDouble (applyOp True [monday9 a0 Scheduled] (Create (monday9 a1 Confirmed)))"
proof -
  have ids: "distinct (map appt_id [monday9 a0 Scheduled])" by simp
  have inv: "noDouble [monday9 a0 Scheduled]" by (simp add: noDouble_def)
  have dup: "duplicateKey [monday9 a0 Scheduled] (monday9 a1 Confirmed)"
    by (simp add: duplicateKey_def indexed_def slotKey_def monday9_def a0_def a1_def)
  from no_double_booking_preserved [OF ids inv, of True "Create (monday9 a1 Confirmed)"
      "monday9 a1 Confirmed"] ids inv dup
  show ?thesis by blast
qed

text \<open>Every collection that a run of writes reaches from the empty one has the invariant.\<close>

lemma runOps_snoc: "runOps (ops @ [(ok, op)]) = applyOp ok (runOps ops) op"
  by (simp add: runOps_def)

lemma runOps_noDouble: "noDouble (runOps ops) \<and> distinct (map appt_id (runOps ops))"
proof (induction ops rule: rev_induct)
  case Nil
  then show ?case by (simp add: runOps_def noDouble_def)
next
  case (snoc step ops)
  then show ?case using applyOp_keeps [of "runOps ops" "fst step" "snd step"]
    by (cases step) (simp add: runOps_snoc)
qed

text \<open>
  The index does work that the handlers do not: PUT \<^verbatim>\<open>/:id/confirm\<close> saves without a
  conflict check, so confirming a cancelled appointment whose tuple has been booked again
  would store the tuple twice; the save is rejected.
\<close>

lemma confirm_of_cancelled_twin:
  "noDouble [monday9 a0 Scheduled, monday9 a1 Cancelled]
   \<and> \<not> noDouble [monday9 a0 Scheduled, confirm (monday9 a1 Cancelled)]
   \<and> applyOp True [monday9 a0 Scheduled, monday9 a1 Cancelled] (Confirm a1)
       = [monday9 a0 Scheduled, monday9 a1 Cancelled]"
  by (simp add: noDouble_def indexed_def slotKey_def monday9_def confirm_def a0_def a1_def
        saveAfter_def replaceOne_def duplicateKey_def)

text \<open>
  POST \<^verbatim>\<open>/\<close> keeps the invariant on its own, whatever the storage engine does: the
  validated request has \<open>startTime < endTime\<close>, so a stored appointment with the same
  tuple overlaps the request in the string comparison of \<open>checkConflict\<close>, and the handler
  answers 400 before it writes.
\<close>

lemma Appointment_create_key:
  assumes "Appointment_create h stored b = Some doc"
  shows "slotKey doc = (staff b, appointmentDate b, startTime b, endTime b)"
  using assms by (auto simp: Appointment_create_def Let_def slotKey_def split: if_splits)

lemma bookWith_stored:
  assumes "bookWith h stored b staffDoc serviceDoc = (Success c doc, stored')"
  shows "stored' = stored @ [doc] \<and> Appointment_create h stored b = Some doc"
  using assms by (auto simp: bookWith_def split: if_splits option.splits)

lemma router_post_stored:
  assumes "router_post h db u b = (Success c doc, stored')"
  shows "stored' = appointments db @ [doc]
       \<and> slotKey doc = (staff b, appointmentDate b, startTime b, endTime b)"
proof -
  from assms obtain staffDoc serviceDoc where
    "bookWith h (appointments db) b staffDoc serviceDoc = (Success c doc, stored')"
    by (auto simp: router_post_def Let_def split: if_splits lookup.splits)
  from bookWith_stored [OF this] Appointment_create_key show ?thesis by blast
qed

lemma router_post_noDouble:
  assumes "noDouble (appointments db)"
  shows "noDouble (snd (router_post h db u b))"
proof -
  from router_post_cases [of h db u b] consider
    c f where "router_post h db u b = (Failure c f, appointments db)"
    | doc where "router_post h db u b = (Success 201 doc, appointments db @ [doc])"
    by blast
  then show ?thesis
  proof cases
    case 1
    with assms show ?thesis by simp
  next
    case 2
    from router_post_created [OF 2] have lt: "startTime b < endTime b"
      and free: "checkConflict (appointments db) (staff b) (appointmentDate b)
                   (startTime b) (endTime b) None = None"
      by blast+
    from router_post_stored [OF 2]
    have key: "slotKey doc = (staff b, appointmentDate b, startTime b, endTime b)" by simp
    have "slotKey a \<noteq> slotKey doc" if "a \<in> set (appointments db)" "indexed a" for a
    proof
      assume "slotKey a = slotKey doc"
      with key have "staff a = staff b" "appointmentDate a = appointmentDate b"
        "startTime a = startTime b" "endTime a = endTime b"
        by (simp_all add: slotKey_def)
      with that lt have "checkConflict (appointments db) (staff b) (appointmentDate b)
                   (startTime b) (endTime b) None \<noteq> None"
        unfolding checkConflict_strings by (auto simp: indexed_def truthy_def)
      with free show False by simp
    qed
    with assms 2 show ?thesis by (simp add: noDouble_snoc)
  qed
qed


section \<open>A day without availability\<close>

text \<open>
  The callback of \<^verbatim>\<open>'/available-slots'\<close> alone. Handed a query that names a staff
  member, a service and a date, whose service and staff documents are found, and whose
  staff member has no availability window for the weekday of the requested date in the
  server's time zone, it answers with status 200 and an empty slot list.
\<close>

lemma callback_no_window:
  assumes "staffParam q \<noteq> []" "serviceParam q \<noteq> []" "dateParam q \<noteq> []"
    and "Service_findById db (serviceParam q) = Doc serviceDoc"
    and "Staff_findById db (staffParam q) = Doc staffDoc"
    and "\<forall>w \<in> set (availability staffDoc). dayOfWeek w \<noteq> requestedDay h (dateParam q)"
  shows "available_slots_callback h db q =
           Success 200 \<lparr>data_date = parseDate h (dateParam q), availableSlots = [],
                        existingAppointments = None\<rparr>"
proof -
  from assms(6) have
    "List.find (\<lambda>slot. dayOfWeek slot = requestedDay h (dateParam q)) (availability staffDoc) = None"
    by (simp add: find_None_iff)
  with assms(1-5) show ?thesis
    by (simp add: available_slots_callback_def)
qed

text \<open>The callback for a staff member who works on Tuesdays only, asked about a Monday.\<close>

lemma callback_tuesdays_only:
  "Service_findById
     (clinic [\<lparr>startTime = ''09:00'', endTime = ''17:00'', dayOfWeek = ''Tuesday''\<rparr>] 60 []) v1
     = Doc \<lparr>isActive = True, durationMinutes = 60, specialtyRequired = None\<rparr>
   \<and> requestedDay (utcHost 1762128000000) ''2026-01-05'' = ''Monday''
   \<and> available_slots_callback (utcHost 1762128000000)
       (clinic [\<lparr>startTime = ''09:00'', endTime = ''17:00'', dayOfWeek = ''Tuesday''\<rparr>] 60 [])
       \<lparr>staffParam = s1, serviceParam = v1, dateParam = ''2026-01-05''\<rparr>
     = Success 200 \<lparr>data_date = Some 1767571200000, availableSlots = [],
                    existingAppointments = None\<rparr>"
proof -
  let ?db = "clinic [\<lparr>startTime = ''09:00'', endTime = ''17:00'', dayOfWeek = ''Tuesday''\<rparr>] 60 []"
  let ?q = "\<lparr>staffParam = s1, serviceParam = v1, dateParam = ''2026-01-05''\<rparr>"
  let ?h = "utcHost 1762128000000"
  have sv: "Service_findById ?db (serviceParam ?q)
              = Doc \<lparr>isActive = True, durationMinutes = 60, specialtyRequired = None\<rparr>"
    by (simp add: clinic_def)
  have st: "Staff_findById ?db (staffParam ?q)
              = Doc \<lparr>isActive = True, specialty = Some ''Physiotherapy'',
                     availability = [\<lparr>startTime = ''09:00'', endTime = ''17:00'', dayOfWeek = ''Tuesday''\<rparr>]\<rparr>"
    by (simp add: clinic_def)
  have day: "requestedDay ?h ''2026-01-05'' = ''Monday''"
    by (simp add: requestedDay_def utcHost_def utcWeekday_def)
  have pd: "parseDate ?h ''2026-01-05'' = Some 1767571200000"
    by (simp add: utcHost_def)
  have ne: "s1 \<noteq> []" "v1 \<noteq> []"
    by (simp_all add: s1_def v1_def)
  from callback_no_window [OF _ _ _ sv st, of ?h] ne day pd sv show ?thesis
    by simp
qed

lemma firstRoute_available_slots: "firstRoute [''available-slots''] = Some GetById"
  by (simp add: firstRoute_def getRoutes_def)

lemma available_slots_not_ObjectId: "\<not> isObjectId ''available-slots''"
  by (simp add: isObjectId_def)

text \<open>
  C9 on a failing input. A slot query is the request
  \<^verbatim>\<open>GET /api/appointments/available-slots?staff=...&service=...&date=...\<close>. Whatever
  the host, the collections and the query parameters are --- in particular when the staff
  member has no availability window for the requested day --- the router hands it to the
  handlers of \<^verbatim>\<open>'/:id'\<close>, registered before \<^verbatim>\<open>'/available-slots'\<close>: without a valid
  token \<^verbatim>\<open>protect\<close> answers 401, and with one \<^verbatim>\<open>Appointment.findById\<close> rejects the
  id \<^verbatim>\<open>'available-slots'\<close> and the handler answers 500. The answer is an error, not a
  successful response with an empty slot list.
\<close>

theorem slot_query_answered_by_id_route:
  "router_get h db auth [''available-slots''] q =
     ById (case auth of None \<Rightarrow> NotAuthorized401 | Some u \<Rightarrow> CastError500)"
  by (simp add: router_get_def firstRoute_def getRoutes_def get_by_id_def
        Appointment_findById_def isObjectId_def split: option.split)

text \<open>No GET request to the router is answered by the callback of \<^verbatim>\<open>'/available-slots'\<close>.\<close>

lemma callback_unreachable: "router_get h db auth segments q \<noteq> Slots r"
proof (cases "firstRoute segments")
  case None
  then show ?thesis by (simp add: router_get_def)
next
  case (Some n)
  have "n \<noteq> AvailableSlots"
  proof
    assume "n = AvailableSlots"
    with Some show False
      by (auto simp: firstRoute_def getRoutes_def split: if_splits)
  qed
  with Some show ?thesis by (cases n) (simp_all add: router_get_def)
qed

end
